(* ===== verification/Prelude.thy ===== *)
theory Prelude
  imports Main "HOL-Library.Word" "HOL-Library.Sublist"
begin

text \<open>
  Shared vocabulary of the development of \<^verbatim>\<open>src/app.py\<close>: the model of Python's
  \<open>str\<close> as a list of Unicode code points, Python truthiness of the values the script
  tests with \<^verbatim>\<open>if\<close>, exceptions carried by their \<^verbatim>\<open>str(e)\<close>, the \<open>sum\<close> bind
  that models a \<^verbatim>\<open>try\<close> block, and the list lemmas the component proofs share.
\<close>

section \<open>Python values\<close>

text \<open>
  A Python \<open>str\<close> is a sequence of Unicode code points; the prompt and every message
  of the script are Japanese, so a \<open>char\<close> (a byte) does not fit. A code point is a
  \<open>nat\<close>; \<open>ascii\<close> lifts an ASCII literal of the source, and the other characters of
  a literal are written as their code points in hexadecimal.
\<close>

type_synonym codepoint = nat
type_synonym pystr = "codepoint list"

text \<open>The payload of an upload and of \<^verbatim>\<open>io.BytesIO\<close>: Python \<open>bytes\<close>.\<close>

type_synonym bytes = "8 word list"

definition ascii :: "string \<Rightarrow> pystr" where
  "ascii s = map of_char s"

text \<open>
  Truthiness as the script uses it: \<^verbatim>\<open>if api_key\<close>, \<^verbatim>\<open>if paper_text\<close> and
  \<^verbatim>\<open>if summary\<close> test a value that is either \<^verbatim>\<open>None\<close> or a \<open>str\<close>, and both
  \<^verbatim>\<open>None\<close> and the empty string are false.
\<close>

fun py_truthy :: "pystr option \<Rightarrow> bool" where
  "py_truthy None = False"
| "py_truthy (Some s) = (s \<noteq> [])"

text \<open>
  An exception, as the script observes it: only \<^verbatim>\<open>{e}\<close>, that is \<^verbatim>\<open>str(e)\<close>,
  is ever read (in the two \<^verbatim>\<open>except Exception as e\<close> handlers).
\<close>

datatype exc = Exception pystr

primrec exc_str :: "exc \<Rightarrow> pystr" where
  "exc_str (Exception m) = m"

text \<open>
  A computation that may raise is a value of \<open>exc + 'a\<close>; \<open>sum_bind\<close> runs the rest
  of a \<^verbatim>\<open>try\<close> block only when the step before it did not raise.
\<close>

primrec sum_bind :: "exc + 'a \<Rightarrow> ('a \<Rightarrow> exc + 'b) \<Rightarrow> exc + 'b" where
  "sum_bind (Inl e) f = Inl e"
| "sum_bind (Inr a) f = f a"

section \<open>Shared lemmas\<close>

lemma ascii_append: "ascii (s @ t) = ascii s @ ascii t"
  by (simp add: ascii_def)

lemma ascii_Nil [simp]: "ascii [] = []"
  by (simp add: ascii_def)

lemma ascii_eq_Nil_iff [simp]: "ascii s = [] \<longleftrightarrow> s = []"
  by (simp add: ascii_def)

lemma length_ascii [simp]: "length (ascii s) = length s"
  by (simp add: ascii_def)

lemma ascii_inject [simp]: "ascii s = ascii t \<longleftrightarrow> s = t"
proof
  assume "ascii s = ascii t"
  then have "map (char_of :: nat \<Rightarrow> char) (ascii s) = map char_of (ascii t)"
    by simp
  then show "s = t"
    by (simp add: ascii_def comp_def)
qed simp

lemma py_truthy_iff: "py_truthy v \<longleftrightarrow> (\<exists>s. v = Some s \<and> s \<noteq> [])"
  by (cases v) auto

lemma sum_bind_Inr_iff [simp]:
  "sum_bind m f = Inr b \<longleftrightarrow> (\<exists>a. m = Inr a \<and> f a = Inr b)"
  by (cases m) auto

lemma sum_bind_Inl_iff:
  "sum_bind m f = Inl e \<longleftrightarrow> m = Inl e \<or> (\<exists>a. m = Inr a \<and> f a = Inl e)"
  by (cases m) auto

text \<open>
  A line that occurs in a list of lines occurs, as a contiguous piece, in the text that
  joins the lines with a separator: the fact used for the section headings of the prompt.
\<close>

lemma sublist_concat_lines:
  assumes "l \<in> set ls"
  shows "sublist (l @ sep) (concat (map (\<lambda>x. x @ sep) ls))"
proof -
  from assms obtain us vs where "ls = us @ l # vs"
    by (auto simp: in_set_conv_decomp)
  then have "concat (map (\<lambda>x. x @ sep) ls) =
      concat (map (\<lambda>x. x @ sep) us) @ (l @ sep) @ concat (map (\<lambda>x. x @ sep) vs)"
    by simp
  then show ?thesis
    by (metis sublist_appendI)
qed

lemma suffix_append_long: "suffix s (h @ r) \<Longrightarrow> length s \<le> length r \<Longrightarrow> suffix s r"
  by (auto simp: suffix_append)

lemma sublist_middle [intro]: "sublist t (xs @ t @ ys)"
  by (rule sublist_appendI)

end
