(* ===== verification/Runtime.thy ===== *)
theory Runtime
  imports Prelude
begin

text \<open>
  The libraries \<^verbatim>\<open>src/app.py\<close> calls, as the script sees them. Their code is not
  part of the repository and is not modelled; what is modelled is the state they keep
  on the script's behalf and the answers they give, as parameters:
  \<^item> Streamlit (\<^verbatim>\<open>st\<close>): the page the current script run renders, a list of
    elements in the order they were emitted, each in the main area or the sidebar;
    \<^verbatim>\<open>with st.spinner(m)\<close> shows an indicator for the duration of its block, so it
    is a start and an end element;
  \<^item> \<^verbatim>\<open>google.generativeai\<close> (\<^verbatim>\<open>genai\<close>): \<^verbatim>\<open>genai.configure(api_key=k)\<close>
    writes the key into one process-wide client configuration, and
    \<^verbatim>\<open>generate_content\<close> sends a request authenticated with whatever key that
    configuration holds at the time;
  \<^item> the calls the script makes into pypdf and to the model service are logged in the
    order they are made (\<open>calls\<close>); the requests sent are a view of that log;
  \<^item> \<^verbatim>\<open>pypdf\<close>, and the model service's answers: the record \<open>services\<close>, whose
    fields are arbitrary functions, so that every theorem holds for every library
    behaviour (every PDF, every page text, every response or exception).
\<close>

section \<open>Streamlit page elements\<close>

datatype container = Main | Sidebar

datatype elem =
    Title pystr
  | Header pystr
  | Subheader pystr
  | Markdown pystr
  | Error pystr
  | Warning pystr
  | Selectbox pystr "pystr list"
  | FileUploader pystr pystr
  | Button pystr
  | SpinnerStart pystr
  | SpinnerEnd

section \<open>Process state\<close>

text \<open>One request to the generative model, as \<^verbatim>\<open>generate_content\<close> sends it.\<close>

record request =
  req_key :: pystr
  req_model :: pystr
  req_prompt :: pystr

text \<open>
  An external call: \<^verbatim>\<open>pypdf.PdfReader\<close> opened on the uploaded bytes, or one
  request sent to the model service.
\<close>

datatype call = PdfRead bytes | ModelRequest request

text \<open>
  The state a script run reads and writes: the page of the current run, genai's
  process-wide configured key, and the log of external calls made so far, oldest first.
\<close>

record world =
  elements :: "(container \<times> elem) list"
  genai_key :: "pystr option"
  calls :: "call list"

definition init_world :: world where
  "init_world = \<lparr>elements = [], genai_key = None, calls = []\<rparr>"

text \<open>The requests sent: the model requests of the call log, in order.\<close>

primrec call_requests :: "call list \<Rightarrow> request list" where
  "call_requests [] = []"
| "call_requests (c # cs) =
     (case c of ModelRequest r \<Rightarrow> r # call_requests cs | PdfRead f \<Rightarrow> call_requests cs)"

definition requests :: "world \<Rightarrow> request list" where
  "requests w = call_requests (calls w)"

text \<open>
  The external services: \<open>pdf_reader\<close> is \<^verbatim>\<open>pypdf.PdfReader(stream).pages\<close> (the
  pages of the document, or the exception the reader raises), \<open>page_text\<close> is
  \<^verbatim>\<open>page.extract_text()\<close>, and \<open>generate\<close> is the model service's answer to a
  request, \<^verbatim>\<open>response.text\<close> or the exception raised on the way. pypdf reads
  the page list lazily; an exception raised while fetching page \<open>i\<close> is observed by
  the script exactly like one raised by that page's \<^verbatim>\<open>extract_text()\<close> (both leave
  the loop before anything is appended), so it is a value of \<open>page_text\<close>.
\<close>

record 'p services =
  pdf_reader :: "bytes \<Rightarrow> exc + 'p list"
  page_text :: "'p \<Rightarrow> exc + pystr"
  generate :: "request \<Rightarrow> exc + pystr"

section \<open>Library operations\<close>

definition log_call :: "call \<Rightarrow> world \<Rightarrow> world" where
  "log_call c w = w\<lparr>calls := calls w @ [c]\<rparr>"

definition st_emit :: "container \<Rightarrow> elem \<Rightarrow> world \<Rightarrow> world" where
  "st_emit c e w = w\<lparr>elements := elements w @ [(c, e)]\<rparr>"

text \<open>\<^verbatim>\<open>genai.configure(api_key=k)\<close>: last writer wins.\<close>

definition genai_configure :: "pystr \<Rightarrow> world \<Rightarrow> world" where
  "genai_configure k w = w\<lparr>genai_key := Some k\<rparr>"

text \<open>
  \<^verbatim>\<open>genai.GenerativeModel(m).generate_content(p).text\<close>: the request carries the key
  configured at the time of the call; with none configured the client raises before
  anything is sent.
\<close>

definition no_credentials :: exc where
  "no_credentials = Exception (ascii ''No API key configured'')"

definition genai_generate :: "'p services \<Rightarrow> pystr \<Rightarrow> pystr \<Rightarrow> world \<Rightarrow> (exc + pystr) \<times> world" where
  "genai_generate svc m p w =
     (case genai_key w of
        None \<Rightarrow> (Inl no_credentials, w)
      | Some k \<Rightarrow>
          (let r = \<lparr>req_key = k, req_model = m, req_prompt = p\<rparr>
           in (generate svc r, log_call (ModelRequest r) w)))"

text \<open>
  \<^verbatim>\<open>pypdf.PdfReader(stream).pages\<close>: the library is called on the bytes, which is
  logged, and answers the pages or an exception.
\<close>

definition pdf_open :: "'p services \<Rightarrow> bytes \<Rightarrow> world \<Rightarrow> (exc + 'p list) \<times> world" where
  "pdf_open svc f w = (pdf_reader svc f, log_call (PdfRead f) w)"

text \<open>
  Widgets. A widget is drawn on the page and returns the value the user has given it
  for this run, which is an input of the run: \<^verbatim>\<open>st.selectbox\<close> returns the option
  at the chosen index (Streamlit falls back to the default index 0 when the stored
  choice is not an option), \<^verbatim>\<open>st.file_uploader\<close> the uploaded file or \<^verbatim>\<open>None\<close>,
  \<^verbatim>\<open>st.button\<close> whether this run was triggered by a click on it.
\<close>

definition st_selectbox ::
  "container \<Rightarrow> pystr \<Rightarrow> pystr list \<Rightarrow> nat \<Rightarrow> world \<Rightarrow> pystr \<times> world" where
  "st_selectbox c label options sel w =
     ((if sel < length options then options ! sel else options ! 0),
      st_emit c (Selectbox label options) w)"

definition st_file_uploader ::
  "container \<Rightarrow> pystr \<Rightarrow> pystr \<Rightarrow> bytes option \<Rightarrow> world \<Rightarrow> bytes option \<times> world" where
  "st_file_uploader c label file_type uploaded w = (uploaded, st_emit c (FileUploader label file_type) w)"

definition st_button :: "container \<Rightarrow> pystr \<Rightarrow> bool \<Rightarrow> world \<Rightarrow> bool \<times> world" where
  "st_button c label pressed w = (pressed, st_emit c (Button label) w)"

section \<open>Frame lemmas\<close>

named_theorems world_simps \<open>how the library operations change the world\<close>

lemma call_requests_append [simp]:
  "call_requests (xs @ ys) = call_requests xs @ call_requests ys"
  by (induction xs) (simp_all split: call.split)

lemma requests_update [simp]: "requests (w\<lparr>calls := cs\<rparr>) = call_requests cs"
  "requests (w\<lparr>elements := es\<rparr>) = requests w"
  "requests (w\<lparr>genai_key := k\<rparr>) = requests w"
  by (simp_all add: requests_def)

lemma init_world_fields [simp]:
  "elements init_world = []" "genai_key init_world = None" "calls init_world = []"
  "requests init_world = []"
  by (simp_all add: init_world_def requests_def)

lemma log_call_fields [simp, world_simps]:
  "elements (log_call c w) = elements w"
  "genai_key (log_call c w) = genai_key w"
  "calls (log_call c w) = calls w @ [c]"
  "requests (log_call c w) = requests w @ call_requests [c]"
  by (simp_all add: log_call_def requests_def)

lemma st_emit_fields [simp, world_simps]:
  "elements (st_emit c e w) = elements w @ [(c, e)]"
  "genai_key (st_emit c e w) = genai_key w"
  "calls (st_emit c e w) = calls w"
  "requests (st_emit c e w) = requests w"
  by (simp_all add: st_emit_def requests_def)

lemma genai_configure_fields [simp, world_simps]:
  "elements (genai_configure k w) = elements w"
  "genai_key (genai_configure k w) = Some k"
  "calls (genai_configure k w) = calls w"
  "requests (genai_configure k w) = requests w"
  by (simp_all add: genai_configure_def requests_def)

lemma genai_generate_configured [world_simps]:
  "genai_key w = Some k \<Longrightarrow>
   genai_generate svc m p w =
     (generate svc \<lparr>req_key = k, req_model = m, req_prompt = p\<rparr>,
      log_call (ModelRequest \<lparr>req_key = k, req_model = m, req_prompt = p\<rparr>) w)"
  by (simp add: genai_generate_def Let_def)

lemma pdf_open_eq [world_simps]: "pdf_open svc f w = (pdf_reader svc f, log_call (PdfRead f) w)"
  by (simp add: pdf_open_def)

lemma st_selectbox_option:
  "options \<noteq> [] \<Longrightarrow> fst (st_selectbox c label options sel w) \<in> set options"
  by (simp add: st_selectbox_def)

end
