(* ===== verification/Extractor.thy ===== *)
theory Extractor
  imports Runtime
begin

text \<open>
  The extractor, \<^verbatim>\<open>extract_text_from_pdf\<close> (\<^verbatim>\<open>src/app.py\<close>, lines 7--17): it
  opens the uploaded stream with \<^verbatim>\<open>pypdf.PdfReader\<close> (a logged call), appends the text of every page
  in document order to an accumulator with no separator, and turns any exception into
  one \<^verbatim>\<open>st.error\<close> message and the result \<^verbatim>\<open>None\<close>. The theory gives the loop
  (\<open>extract_pages\<close>), the function, and a reference specification (\<open>pdf_text\<close>:
  the concatenation of all page texts, or the first exception) that the function is
  proved to implement on every branch.
\<close>

section \<open>The code\<close>

text \<open>The message prefix of line 16.\<close>

definition pdf_error_prefix :: pystr where
  "pdf_error_prefix = ascii ''PDF'' @ [0x306E, 0x8AAD, 0x307F, 0x8FBC, 0x307F, 0x4E2D, 0x306B,
     0x30A8, 0x30E9, 0x30FC, 0x304C, 0x767A, 0x751F, 0x3057, 0x307E, 0x3057, 0x305F] @ ascii '': ''"

text \<open>
  Lines 11--14: \<^verbatim>\<open>text = ""\<close>, then \<^verbatim>\<open>text += page.extract_text()\<close> for each page;
  an exception of \<^verbatim>\<open>extract_text\<close> leaves the loop (and the \<^verbatim>\<open>try\<close>).
\<close>

fun extract_pages :: "('p \<Rightarrow> exc + pystr) \<Rightarrow> pystr \<Rightarrow> 'p list \<Rightarrow> exc + pystr" where
  "extract_pages extract_text text [] = Inr text"
| "extract_pages extract_text text (page # pages) =
     sum_bind (extract_text page) (\<lambda>t. extract_pages extract_text (text @ t) pages)"

text \<open>Lines 7--17: the \<^verbatim>\<open>try\<close> block and its handler.\<close>

definition extract_text_from_pdf :: "'p services \<Rightarrow> bytes \<Rightarrow> world \<Rightarrow> pystr option \<times> world" where
  "extract_text_from_pdf svc pdf_file w =
     (let (pages, w1) = pdf_open svc pdf_file w in
      case sum_bind pages (extract_pages (page_text svc) []) of
        Inr text \<Rightarrow> (Some text, w1)
      | Inl e \<Rightarrow> (None, st_emit Main (Error (pdf_error_prefix @ exc_str e)) w1))"

section \<open>Reference specification\<close>

text \<open>
  The abstract extractor: collect the page texts, failing with the first exception in
  page order, and concatenate them.
\<close>

fun collect :: "(exc + 'a) list \<Rightarrow> exc + 'a list" where
  "collect [] = Inr []"
| "collect (r # rs) = sum_bind r (\<lambda>a. sum_bind (collect rs) (\<lambda>as. Inr (a # as)))"

definition pdf_text :: "'p services \<Rightarrow> bytes \<Rightarrow> exc + pystr" where
  "pdf_text svc f =
     sum_bind (pdf_reader svc f) (\<lambda>pages.
       sum_bind (collect (map (page_text svc) pages)) (\<lambda>ts. Inr (concat ts)))"

section \<open>Properties\<close>

lemma extract_pages_collect:
  "extract_pages ex acc ps = sum_bind (collect (map ex ps)) (\<lambda>ts. Inr (acc @ concat ts))"
proof (induction ps arbitrary: acc)
  case Nil
  then show ?case by simp
next
  case (Cons p ps)
  then show ?case
    by (cases "ex p"; cases "collect (map ex ps)") simp_all
qed

lemma extract_pages_append:
  "extract_pages ex acc (ps @ qs) = sum_bind (extract_pages ex acc ps) (\<lambda>t. extract_pages ex t qs)"
proof (induction ps arbitrary: acc)
  case Nil
  then show ?case by simp
next
  case (Cons p ps)
  then show ?case by (cases "ex p") simp_all
qed

lemma collect_Inr_iff: "collect rs = Inr ts \<longleftrightarrow> rs = map Inr ts"
proof (induction rs arbitrary: ts)
  case Nil
  then show ?case by auto
next
  case (Cons r rs)
  then show ?case
    by (cases r; cases ts) auto
qed

lemma collect_first_Inl:
  "\<forall>r \<in> set rs. \<exists>a. r = Inr a \<Longrightarrow> collect (rs @ Inl e # qs) = Inl e"
  by (induction rs) auto

text \<open>The body of the \<^verbatim>\<open>try\<close> block computes the reference result.\<close>

lemma extract_body_pdf_text:
  "sum_bind (pdf_reader svc f) (extract_pages (page_text svc) []) = pdf_text svc f"
  by (cases "pdf_reader svc f") (simp_all add: pdf_text_def extract_pages_collect)

lemma extract_text_from_pdf_ok:
  "pdf_text svc f = Inr t \<Longrightarrow> extract_text_from_pdf svc f w = (Some t, log_call (PdfRead f) w)"
  by (simp add: extract_text_from_pdf_def pdf_open_def extract_body_pdf_text)

lemma extract_text_from_pdf_fail:
  "pdf_text svc f = Inl e \<Longrightarrow>
   extract_text_from_pdf svc f w =
     (None, st_emit Main (Error (pdf_error_prefix @ exc_str e)) (log_call (PdfRead f) w))"
  by (simp add: extract_text_from_pdf_def pdf_open_def extract_body_pdf_text)

text \<open>
  C4. The extractor implements the reference specification on every branch: it calls
  pypdf once on the file, and returns the concatenated page texts with nothing else of
  the world changed, or \<open>None\<close> and one error message built from the first exception.
\<close>

theorem extract_text_from_pdf_refines:
  "extract_text_from_pdf svc f w =
     (case pdf_text svc f of
        Inr t \<Rightarrow> (Some t, log_call (PdfRead f) w)
      | Inl e \<Rightarrow> (None, st_emit Main (Error (pdf_error_prefix @ exc_str e)) (log_call (PdfRead f) w)))"
  by (simp add: extract_text_from_pdf_def pdf_open_def extract_body_pdf_text)

text \<open>
  C13. When every page yields its text, the result is exactly their concatenation in page
  order, with nothing inserted between pages, and nothing is shown.
\<close>

theorem extract_concat_pages:
  assumes "pdf_reader svc f = Inr pages"
    and "map (page_text svc) pages = map Inr ts"
  shows "extract_text_from_pdf svc f w = (Some (concat ts), log_call (PdfRead f) w)"
proof -
  from assms(2) have "collect (map (page_text svc) pages) = Inr ts"
    by (simp add: collect_Inr_iff)
  with assms(1) show ?thesis
    by (simp add: extract_text_from_pdf_def pdf_open_def extract_pages_collect)
qed

lemma extract_concat_pages_witness:
  "extract_text_from_pdf
     \<lparr>pdf_reader = \<lambda>_. Inr [ascii ''Hello '', ascii ''World''], page_text = Inr,
      generate = \<lambda>_. Inr []\<rparr> [] init_world =
   (Some (ascii ''Hello World''), log_call (PdfRead []) init_world)"
  using extract_concat_pages [of "\<lparr>pdf_reader = \<lambda>_. Inr [ascii ''Hello '', ascii ''World''],
      page_text = Inr, generate = \<lambda>_. Inr []\<rparr>" "[]" "[ascii ''Hello '', ascii ''World'']"
      "[ascii ''Hello '', ascii ''World'']" init_world]
  by (simp flip: ascii_append)

text \<open>
  C14. A page whose extraction raises ends the loop: when every earlier page yielded its
  text and page \<open>p\<close> raises \<open>e\<close>, the text read so far is dropped, the result is
  \<open>None\<close>, and exactly one error message, the fixed prefix followed by
  \<^verbatim>\<open>str(e)\<close>, is added to the page; nothing else of the world changes but the
  logged pypdf call.
\<close>

theorem extract_page_error:
  assumes "pdf_reader svc f = Inr (ps @ p # qs)"
    and "\<forall>q \<in> set ps. \<exists>t. page_text svc q = Inr t"
    and "page_text svc p = Inl e"
  shows "extract_text_from_pdf svc f w =
    (None, st_emit Main (Error (pdf_error_prefix @ exc_str e)) (log_call (PdfRead f) w))"
proof -
  from assms(2) have "\<forall>r \<in> set (map (page_text svc) ps). \<exists>t. r = Inr t"
    by auto
  then have "collect (map (page_text svc) (ps @ p # qs)) = Inl e"
    using assms(3) by (simp add: collect_first_Inl)
  with assms(1) show ?thesis
    by (simp add: extract_text_from_pdf_def pdf_open_def extract_pages_collect)
qed

lemma extract_page_error_witness:
  "extract_text_from_pdf
     \<lparr>pdf_reader = \<lambda>_. Inr [Inr (ascii ''Hello ''), Inl (Exception (ascii ''bad page''))],
      page_text = id, generate = \<lambda>_. Inr []\<rparr> [] init_world =
   (None, st_emit Main (Error (pdf_error_prefix @ ascii ''bad page'')) (log_call (PdfRead []) init_world))"
  using extract_page_error [of "\<lparr>pdf_reader = \<lambda>_. Inr [Inr (ascii ''Hello ''),
      Inl (Exception (ascii ''bad page''))], page_text = id, generate = \<lambda>_. Inr []\<rparr>"
      "[]" "[Inr (ascii ''Hello '')]" "Inl (Exception (ascii ''bad page''))" "[]"
      "Exception (ascii ''bad page'')" init_world]
  by simp

lemma extract_reader_error:
  "pdf_reader svc f = Inl e \<Longrightarrow>
   extract_text_from_pdf svc f w =
     (None, st_emit Main (Error (pdf_error_prefix @ exc_str e)) (log_call (PdfRead f) w))"
  by (simp add: extract_text_from_pdf_def pdf_open_def)

lemma extract_text_from_pdf_world:
  "snd (extract_text_from_pdf svc f w) = log_call (PdfRead f) w \<or>
   (\<exists>e. snd (extract_text_from_pdf svc f w) =
     st_emit Main (Error (pdf_error_prefix @ exc_str e)) (log_call (PdfRead f) w))"
  by (auto simp: extract_text_from_pdf_def pdf_open_def split: sum.split)

lemma extract_text_from_pdf_frame [simp]:
  "genai_key (snd (extract_text_from_pdf svc f w)) = genai_key w"
  "requests (snd (extract_text_from_pdf svc f w)) = requests w"
  "calls (snd (extract_text_from_pdf svc f w)) = calls w @ [PdfRead f]"
  by (simp_all add: extract_text_from_pdf_def pdf_open_def split: sum.split)

lemma extract_text_from_pdf_Some_world:
  "fst (extract_text_from_pdf svc f w) = Some t \<Longrightarrow>
   snd (extract_text_from_pdf svc f w) = log_call (PdfRead f) w"
  by (auto simp: extract_text_from_pdf_def pdf_open_def split: sum.splits)

end
