(* ===== verification/Prompt.thy ===== *)
theory Prompt
  imports Prelude
begin

text \<open>
  The prompt of \<^verbatim>\<open>summarize_text\<close> (\<^verbatim>\<open>src/app.py\<close>, lines 25--66): a
  triple-quoted f-string that opens with a line break, holds source lines 26--64 with
  their indentation, then the indented placeholder \<^verbatim>\<open>{text}\<close>, a line break and
  the eight spaces before the closing quotes. Each line is written as its ASCII runs
  (\<open>ascii\<close>) and the code points of its Japanese runs. The theory shows that the
  prompt carries the seven section headings of the output format whatever the paper
  text, and that building and decoding the prompt are inverse: the paper text is
  embedded verbatim, recoverable and never cut.
\<close>

section \<open>The template\<close>

text \<open>
  Source lines 26 to 64, in order: the task sentence, the four numbered instructions
  (extract title and authors; summarise background/purpose, method,
  results/discussion, limitations in Japanese; copy the references verbatim, one per
  line; Markdown with \<^verbatim>\<open>###\<close> headings only, plain body text), then the output
  format with its seven \<^verbatim>\<open>###\<close> headings, the rule \<^verbatim>\<open>---\<close> and the label
  that introduces the paper's body.
\<close>

definition prompt_lines :: "pystr list" where
  "prompt_lines = [
     (ascii ''        '' @ [0x4EE5, 0x4E0B, 0x306E, 0x82F1, 0x8A9E, 0x306E, 0x5B66, 0x8853, 0x8AD6, 0x6587, 0x3092, 0x8AAD, 0x307F, 0x3001, 0x6307, 0x5B9A, 0x3055, 0x308C, 0x305F, 0x9805, 0x76EE, 0x306B, 0x5F93, 0x3063, 0x3066, 0x60C5, 0x5831, 0x3092, 0x62BD, 0x51FA, 0x30FB, 0x8981, 0x7D04, 0x3057, 0x3066, 0x304F, 0x3060, 0x3055, 0x3044, 0x3002]),
     [],
     (ascii ''        '' @ [0x3010, 0x6307, 0x793A, 0x3011]),
     (ascii ''        1.  '' @ [0x307E, 0x305A, 0x3001, 0x8AD6, 0x6587, 0x306E, 0x672C, 0x6587, 0x304B, 0x3089, 0x300C, 0x30BF, 0x30A4, 0x30C8, 0x30EB, 0x300D, 0x3068, 0x300C, 0x8457, 0x8005, 0x300D, 0x3092, 0x6B63, 0x78BA, 0x306B, 0x62BD, 0x51FA, 0x3057, 0x3066, 0x304F, 0x3060, 0x3055, 0x3044, 0x3002]),
     (ascii ''        2.  '' @ [0x6B21, 0x306B, 0x3001, 0x4EE5, 0x4E0B, 0x306E, 0x9805, 0x76EE, 0x306B, 0x3064, 0x3044, 0x3066, 0x65E5, 0x672C, 0x8A9E, 0x3067, 0x8981, 0x7D04, 0x3057, 0x3066, 0x304F, 0x3060, 0x3055, 0x3044, 0x3002]),
     (ascii ''            - '' @ [0x300C, 0x80CC, 0x666F, 0x30FB, 0x76EE, 0x7684, 0x300D]),
     (ascii ''            - '' @ [0x300C, 0x65B9, 0x6CD5, 0x300D]),
     (ascii ''            - '' @ [0x300C, 0x7D50, 0x679C, 0x30FB, 0x8003, 0x5BDF, 0x300D]),
     (ascii ''            - '' @ [0x300C, 0x4E3B, 0x5F35, 0x306E, 0x9650, 0x754C, 0x30FB, 0x6B8B, 0x3055, 0x308C, 0x305F, 0x8AB2, 0x984C, 0x300D]),
     (ascii ''        3.  '' @ [0x300C, 0x53C2, 0x8003, 0x6587, 0x732E, 0x300D, 0x306F, 0x539F, 0x6587, 0x306E, 0x307E, 0x307E, 0x62BD, 0x51FA, 0x3057, 0x3001, 0x5404, 0x6587, 0x732E, 0x3092, 0x6539, 0x884C, 0x3067, 0x533A, 0x5207, 0x3063, 0x3066, 0x30EA, 0x30B9, 0x30C8, 0x5F62, 0x5F0F, 0x306B, 0x3057, 0x3066, 0x304F, 0x3060, 0x3055, 0x3044, 0x3002]),
     (ascii ''        4.  '' @ [0x51FA, 0x529B, 0x306F, 0x5168, 0x4F53, 0x3068, 0x3057, 0x3066, 0x30DE, 0x30FC, 0x30AF, 0x30C0, 0x30A6, 0x30F3, 0x5F62, 0x5F0F, 0x3067, 0x3001, 0x5404, 0x30BB, 0x30AF, 0x30B7, 0x30E7, 0x30F3, 0x306E, 0x30BF, 0x30A4, 0x30C8, 0x30EB, 0xFF08, 0x300C, 0x30BF, 0x30A4, 0x30C8, 0x30EB, 0x300D, 0x300C, 0x8457, 0x8005, 0x300D, 0x300C, 0x80CC, 0x666F, 0x30FB, 0x76EE, 0x7684, 0x300D, 0x306A, 0x3069, 0xFF09, 0x306E, 0x307F, 0x3092] @ ascii '' `###` '' @ [0x3092, 0x4F7F, 0x3063, 0x3066, 0x8A18, 0x8FF0, 0x3057, 0x3001, 0x672C, 0x6587, 0x306F, 0x5E73, 0x6587, 0x3067, 0x51FA, 0x529B, 0x3057, 0x3066, 0x304F, 0x3060, 0x3055, 0x3044, 0xFF08, 0x592A, 0x5B57, 0x306A, 0x3069, 0x306E, 0x88C5, 0x98FE, 0x306F, 0x4E0D, 0x8981, 0x3067, 0x3059, 0xFF09, 0x3002]),
     [],
     (ascii ''        '' @ [0x3010, 0x51FA, 0x529B, 0x30D5, 0x30A9, 0x30FC, 0x30DE, 0x30C3, 0x30C8, 0x3011]),
     (ascii ''        ### '' @ [0x30BF, 0x30A4, 0x30C8, 0x30EB]),
     (ascii ''        '' @ [0x3053, 0x3053, 0x306B, 0x62BD, 0x51FA, 0x3057, 0x305F, 0x30BF, 0x30A4, 0x30C8, 0x30EB, 0x3092, 0x8A18, 0x8FF0]),
     [],
     (ascii ''        ### '' @ [0x8457, 0x8005]),
     (ascii ''        '' @ [0x3053, 0x3053, 0x306B, 0x62BD, 0x51FA, 0x3057, 0x305F, 0x8457, 0x8005, 0x30EA, 0x30B9, 0x30C8, 0x3092, 0x8A18, 0x8FF0]),
     [],
     (ascii ''        ### '' @ [0x80CC, 0x666F, 0x30FB, 0x76EE, 0x7684]),
     (ascii ''        '' @ [0x3053, 0x3053, 0x306B, 0x5185, 0x5BB9, 0x3092, 0x8A18, 0x8FF0]),
     [],
     (ascii ''        ### '' @ [0x65B9, 0x6CD5]),
     (ascii ''        '' @ [0x3053, 0x3053, 0x306B, 0x5185, 0x5BB9, 0x3092, 0x8A18, 0x8FF0]),
     [],
     (ascii ''        ### '' @ [0x7D50, 0x679C, 0x30FB, 0x8003, 0x5BDF]),
     (ascii ''        '' @ [0x3053, 0x3053, 0x306B, 0x5185, 0x5BB9, 0x3092, 0x8A18, 0x8FF0]),
     [],
     (ascii ''        ### '' @ [0x4E3B, 0x5F35, 0x306E, 0x9650, 0x754C, 0x30FB, 0x6B8B, 0x3055, 0x308C, 0x305F, 0x8AB2, 0x984C]),
     (ascii ''        '' @ [0x3053, 0x3053, 0x306B, 0x5185, 0x5BB9, 0x3092, 0x8A18, 0x8FF0]),
     [],
     (ascii ''        ### '' @ [0x53C2, 0x8003, 0x6587, 0x732E]),
     (ascii ''        - '' @ [0x6587, 0x732E] @ ascii ''1''),
     (ascii ''        - '' @ [0x6587, 0x732E] @ ascii ''2''),
     (ascii ''        - ...''),
     [],
     (ascii ''        ---''),
     [],
     (ascii ''        '' @ [0x3010, 0x8AD6, 0x6587, 0x672C, 0x6587, 0x3011])
   ]"

text \<open>Everything before \<^verbatim>\<open>{text}\<close>, and the eight spaces after it.\<close>

definition prompt_head :: pystr where
  "prompt_head = [0xA] @ concat (map (\<lambda>l. l @ [0xA]) prompt_lines) @ ascii ''        ''"

definition prompt_tail :: pystr where
  "prompt_tail = [0xA] @ ascii ''        ''"

text \<open>The f-string: \<^verbatim>\<open>{text}\<close> inserts the string itself.\<close>

definition prompt :: "pystr \<Rightarrow> pystr" where
  "prompt text = prompt_head @ text @ prompt_tail"

text \<open>
  The seven section names of the output format (lines 39, 42, 45, 48, 51, 54, 57):
  title, authors, background/purpose, method, results/discussion,
  limitations/open issues, references.
\<close>

definition section_headings :: "pystr list" where
  "section_headings = [
     [0x30BF, 0x30A4, 0x30C8, 0x30EB],
     [0x8457, 0x8005],
     [0x80CC, 0x666F, 0x30FB, 0x76EE, 0x7684],
     [0x65B9, 0x6CD5],
     [0x7D50, 0x679C, 0x30FB, 0x8003, 0x5BDF],
     [0x4E3B, 0x5F35, 0x306E, 0x9650, 0x754C, 0x30FB, 0x6B8B, 0x3055, 0x308C, 0x305F, 0x8AB2, 0x984C],
     [0x53C2, 0x8003, 0x6587, 0x732E]]"

definition heading_line :: "pystr \<Rightarrow> pystr" where
  "heading_line h = ascii ''        ### '' @ h"

text \<open>
  Recovering the paper text from a prompt: the inverse of \<open>prompt\<close> on its image,
  \<open>None\<close> on strings that are not prompts.
\<close>

definition prompt_text :: "pystr \<Rightarrow> pystr option" where
  "prompt_text p =
     (if prefix prompt_head p \<and> suffix prompt_tail p
         \<and> length prompt_head + length prompt_tail \<le> length p
      then Some (take (length p - length prompt_head - length prompt_tail)
                      (drop (length prompt_head) p))
      else None)"

section \<open>Properties of the prompt\<close>

lemma template_in_prompt:
  "sublist (concat (map (\<lambda>l. l @ [0xA]) prompt_lines)) (prompt text)"
proof -
  have "prompt text =
      [0xA] @ concat (map (\<lambda>l. l @ [0xA]) prompt_lines) @ (ascii ''        '' @ text @ prompt_tail)"
    by (simp add: prompt_def prompt_head_def)
  then show ?thesis by (simp only: sublist_appendI)
qed

lemma line_in_prompt: "l \<in> set prompt_lines \<Longrightarrow> sublist (l @ [0xA]) (prompt text)"
  using sublist_concat_lines template_in_prompt by (rule sublist_order.order.trans)

lemma heading_lines_in_template:
  "map heading_line section_headings =
     [prompt_lines ! 13, prompt_lines ! 16, prompt_lines ! 19, prompt_lines ! 22,
      prompt_lines ! 25, prompt_lines ! 28, prompt_lines ! 31]"
  by (simp add: section_headings_def heading_line_def prompt_lines_def ascii_def)

lemma suffix_prompt_tail: "suffix prompt_tail (prompt text)"
  by (simp add: prompt_def suffix_def)

text \<open>
  C15. Whatever the paper text, the prompt sent to the model contains each of the seven
  section headings of the output format as a whole line \<^verbatim>\<open>        ### name\<close>.
\<close>

theorem prompt_headings:
  "list_all (\<lambda>h. sublist (heading_line h @ [0xA]) (prompt text)) section_headings"
proof -
  have "length prompt_lines = 39"
    by (simp add: prompt_lines_def)
  then have "set (map heading_line section_headings) \<subseteq> set prompt_lines"
    unfolding heading_lines_in_template by simp
  then show ?thesis
    by (auto simp: list_all_iff intro: line_in_prompt)
qed

text \<open>
  The paper text is embedded verbatim: it is recovered exactly from the prompt, so two
  different texts never give the same prompt.
\<close>

lemma prompt_roundtrip: "prompt_text (prompt text) = Some text"
  using suffix_prompt_tail unfolding prompt_text_def
  by (simp add: prompt_def)

lemma prompt_inject: "prompt s = prompt t \<longleftrightarrow> s = t"
  by (simp add: prompt_def)

text \<open>
  C24. The prompt and the decoder \<open>prompt_text\<close> are inverse: a string decodes to a
  paper text exactly when it is the prompt built around that text, so the model always
  receives a prompt from which the paper is recoverable, and no two texts share a prompt.
\<close>

lemma prompt_text_iff: "prompt_text p = Some t \<longleftrightarrow> p = prompt t"
proof
  assume h: "prompt_text p = Some t"
  then obtain r where p: "p = prompt_head @ r"
    by (auto simp: prompt_text_def prefix_def split: if_splits)
  from h p have len: "length prompt_tail \<le> length r"
    and t: "t = take (length r - length prompt_tail) r"
    and "suffix prompt_tail (prompt_head @ r)"
    by (auto simp: prompt_text_def split: if_splits)
  with len have "suffix prompt_tail r"
    by (blast intro: suffix_append_long)
  then obtain u where "r = u @ prompt_tail"
    by (auto simp: suffix_def)
  with t have "r = t @ prompt_tail"
    by simp
  with p show "p = prompt t" by (simp add: prompt_def)
qed (simp add: prompt_roundtrip)
end
