(* ===== verification/Summarizer.thy ===== *)
theory Summarizer
  imports Prompt Runtime
begin

text \<open>
  The summarizer, \<^verbatim>\<open>summarize_text\<close> (\<^verbatim>\<open>src/app.py\<close>, lines 19--72): it
  writes the key into genai's process-wide configuration, builds the prompt of theory
  \<open>Prompt\<close> around the paper text, sends one \<^verbatim>\<open>generate_content\<close> request and
  returns \<^verbatim>\<open>response.text\<close> unchanged; any exception becomes one \<^verbatim>\<open>st.error\<close>
  message and the result \<^verbatim>\<open>None\<close>. The theory shows that exactly one request is
  sent whatever happens, what it carries, and the result on both branches.
\<close>

section \<open>The code\<close>

text \<open>The message prefix of line 71.\<close>

definition api_error_prefix :: pystr where
  "api_error_prefix = ascii ''Gemini API'' @ [0x3068, 0x306E, 0x901A, 0x4FE1, 0x4E2D, 0x306B,
     0x30A8, 0x30E9, 0x30FC, 0x304C, 0x767A, 0x751F, 0x3057, 0x307E, 0x3057, 0x305F] @ ascii '': ''"

text \<open>
  Lines 21--72. \<^verbatim>\<open>genai.GenerativeModel(model_name)\<close> only records the name; the
  request is made by \<^verbatim>\<open>generate_content\<close>, with the key configured at that moment.
\<close>

definition summarize_text ::
  "'p services \<Rightarrow> pystr \<Rightarrow> pystr \<Rightarrow> pystr \<Rightarrow> world \<Rightarrow> pystr option \<times> world" where
  "summarize_text svc api_key model_name text w =
     (let w1 = genai_configure api_key w;
          (response, w2) = genai_generate svc model_name (prompt text) w1
      in case response of
           Inr response_text \<Rightarrow> (Some response_text, w2)
         | Inl e \<Rightarrow> (None, st_emit Main (Error (api_error_prefix @ exc_str e)) w2))"

text \<open>The request \<^verbatim>\<open>summarize_text\<close> sends.\<close>

definition summary_request :: "pystr \<Rightarrow> pystr \<Rightarrow> pystr \<Rightarrow> request" where
  "summary_request api_key model_name text =
     \<lparr>req_key = api_key, req_model = model_name, req_prompt = prompt text\<rparr>"

section \<open>Properties\<close>

lemma summarize_text_eq:
  "summarize_text svc k m t w =
     (let r = summary_request k m t;
          w2 = log_call (ModelRequest r) (genai_configure k w)
      in case generate svc r of
           Inr s \<Rightarrow> (Some s, w2)
         | Inl e \<Rightarrow> (None, st_emit Main (Error (api_error_prefix @ exc_str e)) w2))"
  by (simp add: summarize_text_def world_simps summary_request_def Let_def)

text \<open>
  C3. Whatever the service answers, one call makes exactly one external call, a request
  that carries the caller's key, the chosen model and the prompt built around the paper
  text; the process-wide key is left set to the caller's key.
\<close>

theorem summarize_one_request:
  "calls (snd (summarize_text svc k m t w)) =
     calls w @ [ModelRequest \<lparr>req_key = k, req_model = m, req_prompt = prompt t\<rparr>] \<and>
   genai_key (snd (summarize_text svc k m t w)) = Some k"
  by (simp add: summarize_text_eq summary_request_def Let_def split: sum.split)

text \<open>
  C7. On success the response text is returned unchanged, with no post-processing, and
  nothing is shown.
\<close>

theorem summarize_success:
  assumes "generate svc \<lparr>req_key = k, req_model = m, req_prompt = prompt t\<rparr> = Inr s"
  shows "summarize_text svc k m t w =
           (Some s, log_call (ModelRequest \<lparr>req_key = k, req_model = m, req_prompt = prompt t\<rparr>)
                      (genai_configure k w))"
  using assms by (simp add: summarize_text_eq summary_request_def)

lemma summarize_success_witness:
  "summarize_text \<lparr>pdf_reader = \<lambda>_. Inr [], page_text = \<lambda>_. Inr [],
      generate = \<lambda>r. Inr (ascii ''### summary'')\<rparr> (ascii ''key'') (ascii ''gemini-2.5-flash'')
      (ascii ''Hello World'') init_world =
   (Some (ascii ''### summary''),
    log_call (ModelRequest \<lparr>req_key = ascii ''key'', req_model = ascii ''gemini-2.5-flash'',
                    req_prompt = prompt (ascii ''Hello World'')\<rparr>)
      (genai_configure (ascii ''key'') init_world))"
  using summarize_success [of "\<lparr>pdf_reader = \<lambda>_. Inr [], page_text = \<lambda>_. Inr [],
      generate = \<lambda>r. Inr (ascii ''### summary'')\<rparr>" "ascii ''key''" "ascii ''gemini-2.5-flash''"
      "ascii ''Hello World''" "ascii ''### summary''" init_world]
  by simp

text \<open>
  C8. When the request raises \<open>e\<close>, the result is \<open>None\<close> and exactly one error
  message, the fixed prefix followed by \<^verbatim>\<open>str(e)\<close>, is added to the page after the
  request was logged.
\<close>

theorem summarize_error:
  assumes "generate svc \<lparr>req_key = k, req_model = m, req_prompt = prompt t\<rparr> = Inl e"
  shows "summarize_text svc k m t w =
           (None, st_emit Main (Error (api_error_prefix @ exc_str e))
              (log_call (ModelRequest \<lparr>req_key = k, req_model = m, req_prompt = prompt t\<rparr>)
                (genai_configure k w)))"
  using assms by (simp add: summarize_text_eq summary_request_def)

lemma summarize_error_witness:
  "summarize_text \<lparr>pdf_reader = \<lambda>_. Inr [], page_text = \<lambda>_. Inr [],
      generate = \<lambda>r. Inl (Exception (ascii ''quota'')) \<rparr> (ascii ''key'') (ascii ''gemini-2.5-pro'')
      (ascii ''x'') init_world =
   (None, st_emit Main (Error (api_error_prefix @ ascii ''quota''))
      (log_call (ModelRequest \<lparr>req_key = ascii ''key'', req_model = ascii ''gemini-2.5-pro'',
                      req_prompt = prompt (ascii ''x'')\<rparr>) (genai_configure (ascii ''key'') init_world)))"
  using summarize_error [of "\<lparr>pdf_reader = \<lambda>_. Inr [], page_text = \<lambda>_. Inr [],
      generate = \<lambda>r. Inl (Exception (ascii ''quota''))\<rparr>" "ascii ''key''" "ascii ''gemini-2.5-pro''"
      "ascii ''x''" "Exception (ascii ''quota'')" init_world]
  by simp

lemma summarize_text_elements:
  "elements (snd (summarize_text svc k m t w)) = elements w \<or>
   (\<exists>e. elements (snd (summarize_text svc k m t w)) =
          elements w @ [(Main, Error (api_error_prefix @ exc_str e))])"
  by (auto simp: summarize_text_eq Let_def split: sum.split)

end
