(* ===== verification/Shell.thy ===== *)
theory Shell
  imports Extractor Summarizer
begin

text \<open>
  The presentation shell: the top level of \<^verbatim>\<open>src/app.py\<close> (lines 74--113), which
  Streamlit runs from the top on every user interaction. A run draws the title and
  the sidebar, reads the key from the secret store and stops with an error when it is
  missing; otherwise it draws the model choice, the uploader and the button and, when
  the run was triggered by the button, validates the inputs and runs the extractor and
  then the summarizer (\<open>run_pipeline\<close>, lines 97--108). A session is a sequence of
  runs over one process state (\<open>app_reachable\<close>).
  The theory gives the page and the external calls of a run on every path (blocked,
  idle, missing file, failed or empty extraction, failed, empty or shown summary), the
  invariant of the requests over all reachable states, and the facts that hold of every
  run: the order of its calls (read, then at most one request), the dead missing-key
  branch, every element in its area, bracketed spinners, and independence from earlier
  runs.
\<close>

section \<open>The script's literals\<close>

definition app_title :: pystr where
  "app_title = [0x82F1, 0x8A9E, 0x8AD6, 0x6587, 0x8981, 0x7D04, 0x30A2, 0x30D7, 0x30EA]"

definition sidebar_header :: pystr where
  "sidebar_header = [0x8A2D, 0x5B9A]"

definition secret_name :: pystr where
  "secret_name = ascii ''GEMINI_API_KEY''"

definition admin_error :: pystr where
  "admin_error = [0x30A2, 0x30D7, 0x30EA, 0x3092, 0x30C7, 0x30D7, 0x30ED, 0x30A4, 0x3059, 0x308B,
     0x7BA1, 0x7406, 0x8005, 0x306B, 0x9023, 0x7D61, 0x3057, 0x3066, 0x3001] @ ascii ''Gemini API'' @
     [0x30AD, 0x30FC, 0x3092, 0x8A2D, 0x5B9A, 0x3057, 0x3066, 0x3082, 0x3089, 0x3063, 0x3066, 0x304F,
      0x3060, 0x3055, 0x3044, 0x3002]"

definition model_label :: pystr where
  "model_label = [0x4F7F, 0x7528, 0x3059, 0x308B, 0x30E2, 0x30C7, 0x30EB, 0x3092, 0x9078, 0x629E]"

definition model_options :: "pystr list" where
  "model_options = [ascii ''gemini-2.5-pro'', ascii ''gemini-2.5-flash'', ascii ''gemini-2.0-flash'']"

definition uploader_label :: pystr where
  "uploader_label = [0x82F1, 0x8A9E, 0x306E, 0x8AD6, 0x6587] @ ascii ''(PDF)'' @ [0x3092, 0x30A2,
     0x30C3, 0x30D7, 0x30ED, 0x30FC, 0x30C9, 0x3057, 0x3066, 0x304F, 0x3060, 0x3055, 0x3044]"

definition button_label :: pystr where
  "button_label = [0x8981, 0x7D04, 0x3092, 0x5B9F, 0x884C]"

definition reading_msg :: pystr where
  "reading_msg = [0x8AD6, 0x6587, 0x3092, 0x8AAD, 0x307F, 0x8FBC, 0x3093, 0x3067, 0x3044, 0x307E,
     0x3059] @ ascii ''...''"

definition summarizing_suffix :: pystr where
  "summarizing_suffix = ascii '' '' @ [0x304C, 0x8AD6, 0x6587, 0x3092, 0x8981, 0x7D04, 0x3057, 0x3066,
     0x3044, 0x307E, 0x3059] @ ascii ''...''"

definition result_subheader :: pystr where
  "result_subheader = [0x8981, 0x7D04, 0x7D50, 0x679C]"

definition key_warning :: pystr where
  "key_warning = [0x30B5, 0x30A4, 0x30C9, 0x30D0, 0x30FC, 0x3067] @ ascii ''Gemini API'' @
     [0x30AD, 0x30FC, 0x3092, 0x5165, 0x529B, 0x3057, 0x3066, 0x304F, 0x3060, 0x3055, 0x3044, 0x3002]"

definition upload_warning :: pystr where
  "upload_warning = [0x8AD6, 0x6587, 0x306E] @ ascii ''PDF'' @ [0x30D5, 0x30A1, 0x30A4, 0x30EB,
     0x3092, 0x30A2, 0x30C3, 0x30D7, 0x30ED, 0x30FC, 0x30C9, 0x3057, 0x3066, 0x304F, 0x3060, 0x3055,
     0x3044, 0x3002]"

section \<open>One script run\<close>

text \<open>
  What the user gives one run: the index chosen in the model selectbox, the file in the
  uploader, and whether the run was triggered by the button.
\<close>

record run_input =
  model_sel :: nat
  upload :: "bytes option"
  clicked :: bool

text \<open>
  Lines 97--108, the body of \<^verbatim>\<open>if api_key and uploaded_file\<close>: extraction under
  the first spinner (\<^verbatim>\<open>io.BytesIO(uploaded_file.getvalue())\<close> hands the uploaded
  bytes to the reader), then, only for a non-empty text, the summary under the second
  spinner, and the result only when it is non-empty.
\<close>

definition run_pipeline :: "'p services \<Rightarrow> pystr \<Rightarrow> pystr \<Rightarrow> bytes \<Rightarrow> world \<Rightarrow> world" where
  "run_pipeline svc api_key model_name uploaded_file w =
     (let w1 = st_emit Main (SpinnerStart reading_msg) w;
          (paper_text, w2) = extract_text_from_pdf svc uploaded_file w1;
          w3 = st_emit Main SpinnerEnd w2
      in if py_truthy paper_text then
           (let w4 = st_emit Main (SpinnerStart (model_name @ summarizing_suffix)) w3;
                (summary, w5) = summarize_text svc api_key model_name (the paper_text) w4;
                w6 = st_emit Main SpinnerEnd w5
            in if py_truthy summary
               then st_emit Main (Markdown (the summary)) (st_emit Main (Subheader result_subheader) w6)
               else w6)
         else w3)"

text \<open>
  Lines 76--113: one run of the script. Streamlit starts every run on an empty page;
  \<^verbatim>\<open>st.stop()\<close> ends the run where it is.
\<close>

definition app_run ::
  "'p services \<Rightarrow> (pystr \<rightharpoonup> pystr) \<Rightarrow> run_input \<Rightarrow> world \<Rightarrow> world" where
  "app_run svc secrets inp w =
     (let w1 = st_emit Main (Title app_title) (w\<lparr>elements := []\<rparr>);
          w2 = st_emit Sidebar (Header sidebar_header) w1;
          api_key = secrets secret_name
      in if \<not> py_truthy api_key then st_emit Sidebar (Error admin_error) w2
         else
           (let (model_name, w3) = st_selectbox Sidebar model_label model_options (model_sel inp) w2;
                (uploaded_file, w4) = st_file_uploader Main uploader_label (ascii ''pdf'') (upload inp) w3;
                (pressed, w5) = st_button Main button_label (clicked inp) w4
            in if pressed then
                 (if py_truthy api_key \<and> uploaded_file \<noteq> None
                  then run_pipeline svc (the api_key) model_name (the uploaded_file) w5
                  else if \<not> py_truthy api_key then st_emit Main (Warning key_warning) w5
                  else st_emit Main (Warning upload_warning) w5)
               else w5))"

section \<open>Sessions\<close>

text \<open>
  The process states a session reaches: the initial state, and the result of one more run
  of the script, with any input, from a reachable state.
\<close>

inductive app_reachable :: "'p services \<Rightarrow> (pystr \<rightharpoonup> pystr) \<Rightarrow> world \<Rightarrow> bool"
  for svc secrets where
  start: "app_reachable svc secrets init_world"
| run: "app_reachable svc secrets w \<Longrightarrow> app_reachable svc secrets (app_run svc secrets i w)"

section \<open>Pages, invariant and scenario\<close>

text \<open>
  The page of a blocked run and the widgets of a ready run; the model a run selects; the
  invariant of the requests a session sends; the services and input of the end-to-end
  scenario (two pages that extract to \<open>Hello \<close> and \<open>World\<close>, a model that
  answers the seven headings).
\<close>

definition blocked_page :: "(container \<times> elem) list" where
  "blocked_page = [(Main, Title app_title), (Sidebar, Header sidebar_header),
                   (Sidebar, Error admin_error)]"

definition ready_page :: "(container \<times> elem) list" where
  "ready_page = [(Main, Title app_title), (Sidebar, Header sidebar_header),
                 (Sidebar, Selectbox model_label model_options),
                 (Main, FileUploader uploader_label (ascii ''pdf'')), (Main, Button button_label)]"

definition selected_model :: "run_input \<Rightarrow> pystr" where
  "selected_model i = fst (st_selectbox Sidebar model_label model_options (model_sel i) init_world)"

definition request_ok :: "pystr \<Rightarrow> request \<Rightarrow> bool" where
  "request_ok k r \<longleftrightarrow>
     req_key r = k \<and> req_model r \<in> set model_options \<and>
     (case prompt_text (req_prompt r) of None \<Rightarrow> False | Some t \<Rightarrow> t \<noteq> [])"

definition shell_inv :: "pystr \<Rightarrow> world \<Rightarrow> bool" where
  "shell_inv k w \<longleftrightarrow> list_all (request_ok k) (requests w) \<and> genai_key w \<in> {None, Some k}"

definition hello_services :: "pystr services" where
  "hello_services =
     \<lparr>pdf_reader = \<lambda>_. Inr [ascii ''Hello '', ascii ''World''],
      page_text = Inr,
      generate = \<lambda>r. if req_prompt r = prompt (ascii ''Hello World'')
                     then Inr (concat (map (\<lambda>h. ascii ''### '' @ h @ [0xA]) section_headings))
                     else Inl (Exception (ascii ''unexpected prompt''))\<rparr>"

definition hello_input :: run_input where
  "hello_input = \<lparr>model_sel = 1, upload = Some [0x25, 0x50, 0x44, 0x46], clicked = True\<rparr>"

text \<open>
  Whether the spinners of a page are well bracketed: \<open>Some b\<close> when every end
  closes the one spinner that is open and \<open>b\<close> says whether one is still open at
  the end, \<open>None\<close> for an end with none open or a start inside another.
\<close>

fun spinner_state :: "bool \<Rightarrow> (container \<times> elem) list \<Rightarrow> bool option" where
  "spinner_state spinning [] = Some spinning"
| "spinner_state spinning ((c, SpinnerStart m) # es) =
     (if spinning then None else spinner_state True es)"
| "spinner_state spinning ((c, SpinnerEnd) # es) =
     (if spinning then spinner_state False es else None)"
| "spinner_state spinning (e # es) = spinner_state spinning es"

text \<open>
  The area each kind of element belongs in: the settings (the sidebar header, the model
  choice and the administrator message) in the sidebar, everything else in the main area.
\<close>

fun elem_area :: "elem \<Rightarrow> container" where
  "elem_area (Header h) = Sidebar"
| "elem_area (Selectbox l os) = Sidebar"
| "elem_area (Error m) = (if m = admin_error then Sidebar else Main)"
| "elem_area _ = Main"

definition page_layout_ok :: "(container \<times> elem) list \<Rightarrow> bool" where
  "page_layout_ok es \<longleftrightarrow> list_all (\<lambda>(c, e). c = elem_area e) es"

section \<open>Properties\<close>

text \<open>The two kinds of run: the secret store has no usable key, or it has key \<open>k\<close>.\<close>

lemma secret_cases [case_names no_key key]:
  obtains "\<not> py_truthy (secrets secret_name)"
    | k where "secrets secret_name = Some k" and "k \<noteq> []"
  by (auto simp: py_truthy_iff)

lemma selected_model_option: "selected_model i \<in> set model_options"
  unfolding selected_model_def by (rule st_selectbox_option) (simp add: model_options_def)

lemma app_run_blocked:
  "\<not> py_truthy (secrets secret_name) \<Longrightarrow> app_run svc secrets i w = w\<lparr>elements := blocked_page\<rparr>"
  by (simp add: app_run_def blocked_page_def st_emit_def)

lemma app_run_ready:
  assumes "secrets secret_name = Some k" and "k \<noteq> []"
  shows "app_run svc secrets i w =
    (if clicked i then
       (case upload i of
          None \<Rightarrow> w\<lparr>elements := ready_page @ [(Main, Warning upload_warning)]\<rparr>
        | Some f \<Rightarrow> run_pipeline svc k (selected_model i) f (w\<lparr>elements := ready_page\<rparr>))
     else w\<lparr>elements := ready_page\<rparr>)"
  using assms
  by (auto simp: app_run_def ready_page_def st_emit_def st_selectbox_def st_file_uploader_def
      st_button_def selected_model_def split: option.split)

lemma run_pipeline_extract_error:
  "pdf_text svc f = Inl e \<Longrightarrow>
   run_pipeline svc k m f w =
     w\<lparr>elements := elements w @ [(Main, SpinnerStart reading_msg),
        (Main, Error (pdf_error_prefix @ exc_str e)), (Main, SpinnerEnd)],
       calls := calls w @ [PdfRead f]\<rparr>"
  by (simp add: run_pipeline_def extract_text_from_pdf_ok extract_text_from_pdf_fail st_emit_def
      log_call_def)

lemma run_pipeline_empty_text:
  "pdf_text svc f = Inr [] \<Longrightarrow>
   run_pipeline svc k m f w =
     w\<lparr>elements := elements w @ [(Main, SpinnerStart reading_msg), (Main, SpinnerEnd)],
       calls := calls w @ [PdfRead f]\<rparr>"
  by (simp add: run_pipeline_def extract_text_from_pdf_ok extract_text_from_pdf_fail st_emit_def
      log_call_def)

lemma run_pipeline_text:
  assumes "pdf_text svc f = Inr t" and "t \<noteq> []"
  shows "run_pipeline svc k m f w =
    (let w6 = w\<lparr>elements := elements w @ [(Main, SpinnerStart reading_msg), (Main, SpinnerEnd),
                 (Main, SpinnerStart (m @ summarizing_suffix))],
               genai_key := Some k,
               calls := calls w @ [PdfRead f, ModelRequest (summary_request k m t)]\<rparr>
     in case generate svc (summary_request k m t) of
          Inr s \<Rightarrow>
            if s = [] then st_emit Main SpinnerEnd w6
            else st_emit Main (Markdown s) (st_emit Main (Subheader result_subheader)
                   (st_emit Main SpinnerEnd w6))
        | Inl e \<Rightarrow> st_emit Main SpinnerEnd (st_emit Main (Error (api_error_prefix @ exc_str e)) w6))"
  using assms
  by (simp add: run_pipeline_def extract_text_from_pdf_ok extract_text_from_pdf_fail
      summarize_text_eq Let_def st_emit_def log_call_def genai_configure_def
      split: sum.split)

lemmas run_pipeline_branches =
  run_pipeline_extract_error run_pipeline_empty_text run_pipeline_text

text \<open>The external calls of the pipeline: the read of the file, then at most one request.\<close>

lemma run_pipeline_calls:
  "calls (run_pipeline svc k m f w) = calls w @ PdfRead f #
     (case pdf_text svc f of
        Inr t \<Rightarrow> if t = [] then [] else [ModelRequest (summary_request k m t)]
      | Inl e \<Rightarrow> [])"
  by (cases "pdf_text svc f")
     (auto simp: run_pipeline_branches Let_def
       split: sum.split)

lemma run_pipeline_requests:
  "requests (run_pipeline svc k m f w) = requests w @
     (case pdf_text svc f of Inr t \<Rightarrow> if t = [] then [] else [summary_request k m t] | Inl e \<Rightarrow> [])"
  by (simp add: requests_def run_pipeline_calls split: sum.split)

lemma run_pipeline_genai_key:
  "genai_key (run_pipeline svc k m f w) =
     (case pdf_text svc f of Inr t \<Rightarrow> if t = [] then genai_key w else Some k | Inl e \<Rightarrow> genai_key w)"
  by (cases "pdf_text svc f")
     (auto simp: run_pipeline_branches Let_def
       split: sum.split)

lemma run_pipeline_elements:
  "elements (run_pipeline svc k m f w) = elements w @ elements (run_pipeline svc k m f init_world)"
proof (cases "pdf_text svc f")
  case (Inl e)
  then show ?thesis by (simp add: run_pipeline_extract_error init_world_def)
next
  case (Inr t)
  then show ?thesis
    by (cases "t = []")
       (auto simp: run_pipeline_branches Let_def init_world_def split: sum.split)
qed

lemma run_pipeline_no_warning:
  "(c, Warning x) \<in> set (elements (run_pipeline svc k m f w)) \<Longrightarrow> (c, Warning x) \<in> set (elements w)"
proof (cases "pdf_text svc f")
  case (Inl e)
  then show "(c, Warning x) \<in> set (elements (run_pipeline svc k m f w)) \<Longrightarrow> ?thesis"
    by (simp add: run_pipeline_extract_error)
next
  case (Inr t)
  then show "(c, Warning x) \<in> set (elements (run_pipeline svc k m f w)) \<Longrightarrow> ?thesis"
    by (cases "t = []")
       (auto simp: run_pipeline_branches Let_def split: sum.splits if_splits)
qed

lemma app_run_shell_inv:
  assumes "secrets secret_name = Some k" and "shell_inv k w"
  shows "shell_inv k (app_run svc secrets i w)"
proof (cases "k = []")
  case True
  with assms show ?thesis by (simp add: app_run_blocked shell_inv_def)
next
  case False
  have new: "request_ok k (summary_request k (selected_model i) t)" if "t \<noteq> []" for t
    using that selected_model_option
    by (simp add: request_ok_def summary_request_def prompt_roundtrip)
  show ?thesis
    using assms False new
    by (auto simp: app_run_ready shell_inv_def run_pipeline_requests run_pipeline_genai_key
        split: option.split sum.split)
qed

text \<open>
  C1. With no usable key in the secret store the application is blocked for good: in
  every state a session reaches, no external call has been made (no document read, no
  request sent), no key has been configured, and the page holds only the title, the
  sidebar header and the administrator message.
\<close>

theorem blocked_no_effect:
  assumes "\<not> py_truthy (secrets secret_name)" and "app_reachable svc secrets w"
  shows "calls w = [] \<and> genai_key w = None \<and> (w = init_world \<or> elements w = blocked_page)"
  using assms(2)
proof (induction rule: app_reachable.induct)
  case start
  then show ?case by (simp add: init_world_def)
next
  case (run w i)
  then show ?case using assms(1) by (simp add: app_run_blocked)
qed

lemma blocked_no_effect_witness:
  "calls (app_run hello_services Map.empty hello_input init_world) = [] \<and>
   genai_key (app_run hello_services Map.empty hello_input init_world) = None \<and>
   (app_run hello_services Map.empty hello_input init_world = init_world \<or>
    elements (app_run hello_services Map.empty hello_input init_world) = blocked_page)"
  using blocked_no_effect [of Map.empty hello_services
      "app_run hello_services Map.empty hello_input init_world"]
    app_reachable.run [OF app_reachable.start, of hello_services Map.empty hello_input]
  by simp

text \<open>
  C2. A document the reader cannot open, or a page it cannot read, ends the run after
  the extraction step: one error message between the spinner's start and end; the only
  external call is the read of the file, no request is sent and no key configured (the
  summarizer is never invoked).
\<close>

theorem extract_failure_no_request:
  assumes "secrets secret_name = Some k" and "k \<noteq> []" and "clicked i" and "upload i = Some f"
    and "pdf_text svc f = Inl e"
  shows "app_run svc secrets i w =
    w\<lparr>elements := ready_page @ [(Main, SpinnerStart reading_msg),
       (Main, Error (pdf_error_prefix @ exc_str e)), (Main, SpinnerEnd)],
      calls := calls w @ [PdfRead f]\<rparr>"
  using assms by (simp add: app_run_ready run_pipeline_extract_error)

lemma extract_failure_no_request_witness:
  "app_run \<lparr>pdf_reader = \<lambda>_. Inl (Exception (ascii ''EOF marker not found'')),
       page_text = Inr, generate = \<lambda>_. Inr []\<rparr> [secret_name \<mapsto> ascii ''key''] hello_input init_world =
   init_world\<lparr>elements := ready_page @ [(Main, SpinnerStart reading_msg),
     (Main, Error (pdf_error_prefix @ ascii ''EOF marker not found'')), (Main, SpinnerEnd)],
     calls := [PdfRead [0x25, 0x50, 0x44, 0x46]]\<rparr>"
  using extract_failure_no_request [of "[secret_name \<mapsto> ascii ''key'']" "ascii ''key''" hello_input
      "[0x25, 0x50, 0x44, 0x46]" "\<lparr>pdf_reader = \<lambda>_. Inl (Exception (ascii ''EOF marker not found'')),
       page_text = Inr, generate = \<lambda>_. Inr []\<rparr> :: pystr services"
      "Exception (ascii ''EOF marker not found'')" init_world]
  by (simp add: hello_input_def pdf_text_def init_world_def)

text \<open>
  C6. With the key \<open>k\<close> in the secret store, every request sent in any reachable
  state carries \<open>k\<close>, names one of the three offered models, and holds a prompt
  built around a non-empty paper text; the configured key is \<open>k\<close> or none.
\<close>

theorem reachable_requests_ok:
  assumes "secrets secret_name = Some k" and "app_reachable svc secrets w"
  shows "shell_inv k w"
  using assms(2)
proof (induction rule: app_reachable.induct)
  case start
  then show ?case by (simp add: shell_inv_def)
next
  case (run w i)
  from assms(1) run.IH show ?case by (rule app_run_shell_inv)
qed

lemma reachable_requests_ok_witness:
  "shell_inv (ascii ''key'')
     (app_run hello_services [secret_name \<mapsto> ascii ''key''] hello_input init_world)"
proof -
  have "app_reachable hello_services [secret_name \<mapsto> ascii ''key'']
      (app_run hello_services [secret_name \<mapsto> ascii ''key''] hello_input init_world)"
    by (rule app_reachable.run [OF app_reachable.start])
  then show ?thesis
    by (rule reachable_requests_ok [rotated]) simp
qed

text \<open>
  C20. A click with no uploaded file shows the upload warning and does nothing else.
\<close>

theorem missing_upload_warning:
  assumes "secrets secret_name = Some k" and "k \<noteq> []" and "clicked i" and "upload i = None"
  shows "app_run svc secrets i w = w\<lparr>elements := ready_page @ [(Main, Warning upload_warning)]\<rparr>"
  using assms by (simp add: app_run_ready)

lemma missing_upload_warning_witness:
  "app_run hello_services [secret_name \<mapsto> ascii ''key''] (hello_input\<lparr>upload := None\<rparr>) init_world =
   init_world\<lparr>elements := ready_page @ [(Main, Warning upload_warning)]\<rparr>"
  using missing_upload_warning [of "[secret_name \<mapsto> ascii ''key'']" "ascii ''key''"
      "hello_input\<lparr>upload := None\<rparr>" hello_services init_world]
  by (simp add: hello_input_def)

text \<open>
  C17. A document whose pages yield no text at all (a scanned paper, say) ends the run
  silently: the reading spinner starts and ends, no message is shown, the file is read
  and no request is sent.
\<close>

theorem empty_text_silent:
  assumes "secrets secret_name = Some k" and "k \<noteq> []" and "clicked i" and "upload i = Some f"
    and "pdf_text svc f = Inr []"
  shows "app_run svc secrets i w =
    w\<lparr>elements := ready_page @ [(Main, SpinnerStart reading_msg), (Main, SpinnerEnd)],
      calls := calls w @ [PdfRead f]\<rparr>"
  using assms by (simp add: app_run_ready run_pipeline_empty_text)

lemma empty_text_silent_witness:
  "app_run (hello_services\<lparr>page_text := \<lambda>_. Inr []\<rparr>) [secret_name \<mapsto> ascii ''key''] hello_input
     init_world =
   init_world\<lparr>elements := ready_page @ [(Main, SpinnerStart reading_msg), (Main, SpinnerEnd)],
     calls := [PdfRead [0x25, 0x50, 0x44, 0x46]]\<rparr>"
  using empty_text_silent [of "[secret_name \<mapsto> ascii ''key'']" "ascii ''key''" hello_input
      "[0x25, 0x50, 0x44, 0x46]" "hello_services\<lparr>page_text := \<lambda>_. Inr []\<rparr>" init_world]
  by (simp add: hello_input_def hello_services_def pdf_text_def init_world_def)

text \<open>
  C16. The branch \<^verbatim>\<open>elif not api_key\<close> (lines 110--111) is dead: \<^verbatim>\<open>st.stop()\<close>
  has already ended every run without a key, so its warning is never shown.
\<close>

theorem key_warning_unreachable:
  "(Main, Warning key_warning) \<notin> set (elements (app_run svc secrets i w))"
proof (cases secrets rule: secret_cases)
  case no_key
  then show ?thesis by (simp add: app_run_blocked blocked_page_def)
next
  case (key k)
  have ready: "(Main, Warning key_warning) \<notin> set ready_page"
    by (simp add: ready_page_def)
  then have pipeline: "(Main, Warning key_warning) \<notin>
      set (elements (run_pipeline svc k m f (w\<lparr>elements := ready_page\<rparr>)))" for m f
    using run_pipeline_no_warning [of Main key_warning svc k m f "w\<lparr>elements := ready_page\<rparr>"]
    by auto
  have "upload_warning \<noteq> key_warning"
    by (simp add: upload_warning_def key_warning_def)
  with key ready pipeline show ?thesis
    by (simp add: app_run_ready split: option.split)
qed

text \<open>
  C21. Runs do not depend on earlier runs: the page a run renders is the same from any
  state, and the external calls it makes are added to the log whatever the log held.
\<close>

theorem app_run_stateless:
  "elements (app_run svc secrets i w) = elements (app_run svc secrets i init_world) \<and>
   calls (app_run svc secrets i w) = calls w @ calls (app_run svc secrets i init_world)"
proof (cases secrets rule: secret_cases)
  case no_key
  then show ?thesis by (simp add: app_run_blocked init_world_def)
next
  case (key k)
  then show ?thesis
    by (auto simp: app_run_ready init_world_def run_pipeline_calls
        run_pipeline_elements [of svc k _ _ "w\<lparr>elements := ready_page\<rparr>"]
        run_pipeline_elements [of svc k _ _ "\<lparr>elements = ready_page, genai_key = None, calls = []\<rparr>"]
        split: option.split)
qed

text \<open>
  C9. The successful run: when the pages give a non-empty text and the model answers a
  non-empty summary, the run reads the file and then sends exactly one request (the key,
  the chosen model, the prompt around the text), and the page ends with both spinners, the result heading
  and the summary exactly as returned.
\<close>

theorem summary_shown:
  assumes "secrets secret_name = Some k" and "k \<noteq> []" and "clicked i" and "upload i = Some f"
    and "pdf_text svc f = Inr t" and "t \<noteq> []"
    and "generate svc (summary_request k (selected_model i) t) = Inr s" and "s \<noteq> []"
  shows "app_run svc secrets i w =
    w\<lparr>elements := ready_page @ [(Main, SpinnerStart reading_msg), (Main, SpinnerEnd),
        (Main, SpinnerStart (selected_model i @ summarizing_suffix)), (Main, SpinnerEnd),
        (Main, Subheader result_subheader), (Main, Markdown s)],
      genai_key := Some k,
      calls := calls w @ [PdfRead f, ModelRequest (summary_request k (selected_model i) t)]\<rparr>"
  using assms by (simp add: app_run_ready run_pipeline_text st_emit_def)

lemma summary_shown_witness:
  "app_run hello_services [secret_name \<mapsto> ascii ''key''] hello_input init_world =
   init_world\<lparr>elements := ready_page @ [(Main, SpinnerStart reading_msg), (Main, SpinnerEnd),
       (Main, SpinnerStart (ascii ''gemini-2.5-flash'' @ summarizing_suffix)), (Main, SpinnerEnd),
       (Main, Subheader result_subheader),
       (Main, Markdown (concat (map (\<lambda>h. ascii ''### '' @ h @ [0xA]) section_headings)))],
     genai_key := Some (ascii ''key''),
     calls := [PdfRead [0x25, 0x50, 0x44, 0x46],
       ModelRequest (summary_request (ascii ''key'') (ascii ''gemini-2.5-flash'') (ascii ''Hello World''))]\<rparr>"
proof -
  let ?md = "concat (map (\<lambda>h. ascii ''### '' @ h @ [0xA]) section_headings)"
  have m: "selected_model hello_input = ascii ''gemini-2.5-flash''"
    by (simp add: selected_model_def st_selectbox_def hello_input_def model_options_def)
  have t: "pdf_text hello_services [0x25, 0x50, 0x44, 0x46] = Inr (ascii ''Hello World'')"
    by (simp add: pdf_text_def hello_services_def flip: ascii_append)
  have g: "generate hello_services
      (summary_request (ascii ''key'') (selected_model hello_input) (ascii ''Hello World'')) = Inr ?md"
    by (simp add: hello_services_def summary_request_def)
  have md: "?md \<noteq> []"
    by (simp add: section_headings_def)
  have "app_run hello_services [secret_name \<mapsto> ascii ''key''] hello_input init_world =
    init_world\<lparr>elements := ready_page @ [(Main, SpinnerStart reading_msg), (Main, SpinnerEnd),
        (Main, SpinnerStart (selected_model hello_input @ summarizing_suffix)), (Main, SpinnerEnd),
        (Main, Subheader result_subheader), (Main, Markdown ?md)],
      genai_key := Some (ascii ''key''),
      calls := calls init_world @ [PdfRead [0x25, 0x50, 0x44, 0x46],
        ModelRequest (summary_request (ascii ''key'') (selected_model hello_input) (ascii ''Hello World''))]\<rparr>"
    by (rule summary_shown [OF _ _ _ _ t _ g md]) (simp_all add: hello_input_def)
  then show ?thesis
    by (simp add: m init_world_def)
qed

text \<open>
  C18. When the model request raises \<open>e\<close>, the run shows one error message inside the
  summarizing spinner and no result: the request was sent (and logged) but nothing of
  it reaches the page.
\<close>

theorem api_failure_run:
  assumes "secrets secret_name = Some k" and "k \<noteq> []" and "clicked i" and "upload i = Some f"
    and "pdf_text svc f = Inr t" and "t \<noteq> []"
    and "generate svc (summary_request k (selected_model i) t) = Inl e"
  shows "app_run svc secrets i w =
    w\<lparr>elements := ready_page @ [(Main, SpinnerStart reading_msg), (Main, SpinnerEnd),
        (Main, SpinnerStart (selected_model i @ summarizing_suffix)),
        (Main, Error (api_error_prefix @ exc_str e)), (Main, SpinnerEnd)],
      genai_key := Some k,
      calls := calls w @ [PdfRead f, ModelRequest (summary_request k (selected_model i) t)]\<rparr>"
  using assms by (simp add: app_run_ready run_pipeline_text st_emit_def)

lemma api_failure_run_witness:
  "app_run (hello_services\<lparr>generate := \<lambda>_. Inl (Exception (ascii ''429 quota exceeded''))\<rparr>)
     [secret_name \<mapsto> ascii ''key''] hello_input init_world =
   init_world\<lparr>elements := ready_page @ [(Main, SpinnerStart reading_msg), (Main, SpinnerEnd),
       (Main, SpinnerStart (selected_model hello_input @ summarizing_suffix)),
       (Main, Error (api_error_prefix @ ascii ''429 quota exceeded'')), (Main, SpinnerEnd)],
     genai_key := Some (ascii ''key''),
     calls := [PdfRead [0x25, 0x50, 0x44, 0x46],
       ModelRequest (summary_request (ascii ''key'') (selected_model hello_input) (ascii ''Hello World''))]\<rparr>"
proof -
  have t: "pdf_text (hello_services\<lparr>generate := \<lambda>_. Inl (Exception (ascii ''429 quota exceeded''))\<rparr>)
      [0x25, 0x50, 0x44, 0x46] = Inr (ascii ''Hello World'')"
    by (simp add: pdf_text_def hello_services_def flip: ascii_append)
  show ?thesis
    using api_failure_run [OF _ _ _ _ t, of "[secret_name \<mapsto> ascii ''key'']" "ascii ''key''"
        hello_input "Exception (ascii ''429 quota exceeded'')" init_world]
    by (simp add: hello_input_def init_world_def)
qed

text \<open>
  C19. An empty answer from the model ends the run silently: the request was sent, both
  spinners come and go, and neither a result nor a message is shown.
\<close>

theorem empty_summary_silent:
  assumes "secrets secret_name = Some k" and "k \<noteq> []" and "clicked i" and "upload i = Some f"
    and "pdf_text svc f = Inr t" and "t \<noteq> []"
    and "generate svc (summary_request k (selected_model i) t) = Inr []"
  shows "app_run svc secrets i w =
    w\<lparr>elements := ready_page @ [(Main, SpinnerStart reading_msg), (Main, SpinnerEnd),
        (Main, SpinnerStart (selected_model i @ summarizing_suffix)), (Main, SpinnerEnd)],
      genai_key := Some k,
      calls := calls w @ [PdfRead f, ModelRequest (summary_request k (selected_model i) t)]\<rparr>"
  using assms by (simp add: app_run_ready run_pipeline_text st_emit_def)

lemma empty_summary_silent_witness:
  "app_run (hello_services\<lparr>generate := \<lambda>_. Inr []\<rparr>) [secret_name \<mapsto> ascii ''key''] hello_input
     init_world =
   init_world\<lparr>elements := ready_page @ [(Main, SpinnerStart reading_msg), (Main, SpinnerEnd),
       (Main, SpinnerStart (selected_model hello_input @ summarizing_suffix)), (Main, SpinnerEnd)],
     genai_key := Some (ascii ''key''),
     calls := [PdfRead [0x25, 0x50, 0x44, 0x46],
       ModelRequest (summary_request (ascii ''key'') (selected_model hello_input) (ascii ''Hello World''))]\<rparr>"
proof -
  have t: "pdf_text (hello_services\<lparr>generate := \<lambda>_. Inr []\<rparr>) [0x25, 0x50, 0x44, 0x46] =
      Inr (ascii ''Hello World'')"
    by (simp add: pdf_text_def hello_services_def flip: ascii_append)
  show ?thesis
    using empty_summary_silent [OF _ _ _ _ t, of "[secret_name \<mapsto> ascii ''key'']" "ascii ''key''"
        hello_input init_world]
    by (simp add: hello_input_def init_world_def)
qed

lemma spinner_state_append:
  "spinner_state b (xs @ ys) = (case spinner_state b xs of None \<Rightarrow> None | Some b' \<Rightarrow> spinner_state b' ys)"
  by (induction b xs rule: spinner_state.induct) simp_all

lemma spinner_state_pipeline:
  "spinner_state False (elements (run_pipeline svc k m f init_world)) = Some False"
proof (cases "pdf_text svc f")
  case (Inl e)
  then show ?thesis by (simp add: run_pipeline_branches init_world_def)
next
  case (Inr t)
  then show ?thesis
    by (cases "t = []")
       (auto simp: run_pipeline_branches Let_def init_world_def split: sum.split)
qed

text \<open>
  C22. Every spinner a run starts is closed before the run ends, and spinners never
  nest: the \<^verbatim>\<open>with st.spinner\<close> blocks bracket the extraction and the summary
  on every path, errors included.
\<close>

theorem spinners_closed:
  "spinner_state False (elements (app_run svc secrets i w)) = Some False"
proof (cases secrets rule: secret_cases)
  case no_key
  then show ?thesis by (simp add: app_run_blocked blocked_page_def)
next
  case (key k)
  have ready: "spinner_state False ready_page = Some False"
    by (simp add: ready_page_def)
  have "spinner_state False (elements (run_pipeline svc k m f (w\<lparr>elements := ready_page\<rparr>))) = Some False"
    for m f
    using ready spinner_state_pipeline [of svc k m f]
    by (simp add: run_pipeline_elements [of svc k m f "w\<lparr>elements := ready_page\<rparr>"] spinner_state_append)
  with key ready show ?thesis
    by (auto simp: app_run_ready spinner_state_append split: option.split)
qed

text \<open>
  C23. The external calls of a run, in order: none, or the read of the uploaded file
  alone, or that read followed by exactly one request, and a read only on a click with
  a key and a file. The request comes after the read and holds the text read from that
  same file, with the key and the selected model; there is no retry on any path.
\<close>

theorem run_call_order:
  "\<exists>cs. calls (app_run svc secrets i w) = calls w @ cs \<and>
     (cs = [] \<or>
      (\<exists>k f. secrets secret_name = Some k \<and> k \<noteq> [] \<and> clicked i \<and> upload i = Some f \<and>
         (cs = [PdfRead f] \<or>
          (\<exists>t. pdf_text svc f = Inr t \<and> t \<noteq> [] \<and>
             cs = [PdfRead f, ModelRequest (summary_request k (selected_model i) t)]))))"
proof (cases secrets rule: secret_cases)
  case no_key
  then show ?thesis by (simp add: app_run_blocked)
next
  case (key k)
  then show ?thesis
    by (auto simp: app_run_ready run_pipeline_calls split: option.split sum.split)
qed

lemma admin_error_not_prefixed:
  "pdf_error_prefix @ m \<noteq> admin_error" "api_error_prefix @ m \<noteq> admin_error"
  by (simp_all add: admin_error_def pdf_error_prefix_def api_error_prefix_def ascii_def)

lemma page_layout_ok_append [simp]:
  "page_layout_ok (xs @ ys) \<longleftrightarrow> page_layout_ok xs \<and> page_layout_ok ys"
  by (simp add: page_layout_ok_def)

lemma page_layout_pipeline:
  "page_layout_ok (elements (run_pipeline svc k m f init_world))"
proof (cases "pdf_text svc f")
  case (Inl e)
  then show ?thesis
    by (simp add: run_pipeline_branches page_layout_ok_def admin_error_not_prefixed)
next
  case (Inr t)
  then show ?thesis
    by (cases "t = []")
       (auto simp: run_pipeline_branches Let_def page_layout_ok_def admin_error_not_prefixed
         split: sum.split)
qed

text \<open>
  C25. Every element a run draws is in the area the code puts it on every path: the
  sidebar holds the settings header, the model choice and the administrator message,
  the main area the title, the uploader, the button, the spinners, the warnings, the
  error messages of the extractor and the summarizer, and the result.
\<close>

theorem page_layout:
  "page_layout_ok (elements (app_run svc secrets i w))"
proof (cases secrets rule: secret_cases)
  case no_key
  then show ?thesis by (simp add: app_run_blocked blocked_page_def page_layout_ok_def)
next
  case (key k)
  have ready: "page_layout_ok ready_page"
    by (simp add: ready_page_def page_layout_ok_def)
  have "page_layout_ok (elements (run_pipeline svc k m f (w\<lparr>elements := ready_page\<rparr>)))" for m f
    using ready page_layout_pipeline [of svc k m f]
    by (simp add: run_pipeline_elements [of svc k m f "w\<lparr>elements := ready_page\<rparr>"])
  with key ready show ?thesis
    by (auto simp: app_run_ready page_layout_ok_def split: option.split)
qed

end
