(* ===== verification/Browser.thy ===== *)
theory Browser
  imports Shell
begin

text \<open>
  The user's side of a session: Streamlit keeps each widget's value across reruns (the
  chosen index of the model selectbox, the file in the uploader) and reruns the script
  once per user action; \<^verbatim>\<open>st.button\<close> is true only in the run its click
  triggered. A browser state is the widget state and the process state; a user action
  updates the widgets and runs \<open>app_run\<close> (\<^verbatim>\<open>src/app.py\<close>, lines 74--113)
  on the values they now hold. The theory shows that only a click does any work (every
  other action redraws the idle page and the last summary disappears), and that from
  every state the user can obtain the summary of a readable document.
\<close>

section \<open>Widget state and user actions\<close>

text \<open>
  The values Streamlit keeps for the two stateful widgets of lines 87--93: the index
  chosen in the selectbox (default 0) and the uploaded file (none at first).
\<close>

record widget_state =
  chosen :: nat
  uploaded :: "bytes option"

definition init_widgets :: widget_state where
  "init_widgets = \<lparr>chosen = 0, uploaded = None\<rparr>"

text \<open>
  The actions that make Streamlit rerun the script: choosing a model, uploading or
  removing a file, clicking the button, and any other rerun (a reload, say).
\<close>

datatype action = ChooseModel nat | Upload "bytes option" | Click | Rerun

primrec widgets_after :: "action \<Rightarrow> widget_state \<Rightarrow> widget_state" where
  "widgets_after (ChooseModel n) ws = ws\<lparr>chosen := n\<rparr>"
| "widgets_after (Upload f) ws = ws\<lparr>uploaded := f\<rparr>"
| "widgets_after Click ws = ws"
| "widgets_after Rerun ws = ws"

text \<open>
  The input of the run an action triggers: the widget values after the action, and a
  button that is pressed only in the run of its own click.
\<close>

definition run_of :: "action \<Rightarrow> widget_state \<Rightarrow> run_input" where
  "run_of a ws = \<lparr>model_sel = chosen ws, upload = uploaded ws, clicked = (a = Click)\<rparr>"

type_synonym browser = "widget_state \<times> world"

definition browser_step ::
  "'p services \<Rightarrow> (pystr \<rightharpoonup> pystr) \<Rightarrow> action \<Rightarrow> browser \<Rightarrow> browser" where
  "browser_step svc secrets a b =
     (let ws = widgets_after a (fst b) in (ws, app_run svc secrets (run_of a ws) (snd b)))"

fun browser_session ::
  "'p services \<Rightarrow> (pystr \<rightharpoonup> pystr) \<Rightarrow> action list \<Rightarrow> browser \<Rightarrow> browser" where
  "browser_session svc secrets [] b = b"
| "browser_session svc secrets (a # as) b =
     browser_session svc secrets as (browser_step svc secrets a b)"

section \<open>Properties\<close>

lemma browser_session_append:
  "browser_session svc secrets (as @ bs) b =
     browser_session svc secrets bs (browser_session svc secrets as b)"
  by (induction as arbitrary: b) simp_all

lemma fst_browser_step [simp]: "fst (browser_step svc secrets a b) = widgets_after a (fst b)"
  by (simp add: browser_step_def Let_def)

lemma browser_step_idle:
  "a \<noteq> Click \<Longrightarrow> snd (browser_step svc secrets a b) =
     (snd b)\<lparr>elements := if py_truthy (secrets secret_name) then ready_page else blocked_page\<rparr>"
  by (auto simp: browser_step_def Let_def app_run_blocked app_run_ready run_of_def py_truthy_iff)

lemma browser_step_click:
  assumes "secrets secret_name = Some k" and "k \<noteq> []" and "uploaded (fst b) = Some f"
  shows "snd (browser_step svc secrets Click b) =
    run_pipeline svc k (selected_model (run_of Click (fst b))) f ((snd b)\<lparr>elements := ready_page\<rparr>)"
  using assms by (simp add: browser_step_def Let_def app_run_ready run_of_def)

text \<open>
  C26. Only a click does work: any other action (a new model, a new file, a rerun) makes
  no external call and redraws the idle page, so the summary shown before is gone and is
  not recomputed for the new choice.
\<close>

theorem button_not_sticky:
  assumes "a \<noteq> Click"
  shows "calls (snd (browser_step svc secrets a b)) = calls (snd b) \<and>
         elements (snd (browser_step svc secrets a b)) \<in> {blocked_page, ready_page}"
  using assms by (simp add: browser_step_idle)

text \<open>
  C27. Progress: from every browser state, whatever failed before, a deployment with a
  key lets the user obtain the summary of a readable document whose text is non-empty:
  some sequence of actions (choose the model, upload the file, click) reads the file,
  sends the one request for its text and shows the model's non-empty answer.
\<close>

theorem summary_reachable:
  assumes "secrets secret_name = Some k" and "k \<noteq> []"
    and "pdf_text svc f = Inr t" and "t \<noteq> []"
    and "m \<in> set model_options" and "generate svc (summary_request k m t) = Inr s" and "s \<noteq> []"
  shows "\<exists>as. (Main, Markdown s) \<in> set (elements (snd (browser_session svc secrets as b))) \<and>
              calls (snd (browser_session svc secrets as b)) =
                calls (snd b) @ [PdfRead f, ModelRequest (summary_request k m t)]"
proof -
  from assms(5) obtain n where n: "n < length model_options" "model_options ! n = m"
    by (auto simp: in_set_conv_nth)
  let ?as = "[ChooseModel n, Upload (Some f), Click]"
  let ?ws = "(fst b)\<lparr>chosen := n, uploaded := Some f\<rparr>"
  have sel: "selected_model (run_of Click ?ws) = m"
    using n by (simp add: selected_model_def st_selectbox_def run_of_def)
  let ?b2 = "browser_session svc secrets [ChooseModel n, Upload (Some f)] b"
  have b2: "fst ?b2 = ?ws" "calls (snd ?b2) = calls (snd b)"
    by (simp_all add: browser_step_idle)
  have "snd (browser_session svc secrets ?as b) = snd (browser_step svc secrets Click ?b2)"
    by (simp add: browser_session_append [of _ _ "[ChooseModel n, Upload (Some f)]" "[Click]", simplified])
  also have "\<dots> = run_pipeline svc k m f ((snd ?b2)\<lparr>elements := ready_page\<rparr>)"
    using browser_step_click [where secrets = secrets and k = k and b = ?b2 and f = f and svc = svc]
      assms(1,2) b2 sel by simp
  finally have run: "snd (browser_session svc secrets ?as b) = \<dots>" .
  let ?w = "run_pipeline svc k m f ((snd ?b2)\<lparr>elements := ready_page\<rparr>)"
  have "(Main, Markdown s) \<in> set (elements ?w) \<and>
      calls ?w = calls (snd b) @ [PdfRead f, ModelRequest (summary_request k m t)]"
    using assms(3,4,6,7) b2 by (simp add: run_pipeline_text Let_def)
  then show ?thesis
    unfolding run [symmetric] by blast
qed
lemma button_not_sticky_witness:
  "calls (snd (browser_step hello_services [secret_name \<mapsto> ascii ''key''] (ChooseModel 2)
       (browser_session hello_services [secret_name \<mapsto> ascii ''key'']
          [Upload (Some [0x25, 0x50, 0x44, 0x46]), Click] (init_widgets, init_world)))) =
     calls (snd (browser_session hello_services [secret_name \<mapsto> ascii ''key'']
          [Upload (Some [0x25, 0x50, 0x44, 0x46]), Click] (init_widgets, init_world))) \<and>
   elements (snd (browser_step hello_services [secret_name \<mapsto> ascii ''key''] (ChooseModel 2)
       (browser_session hello_services [secret_name \<mapsto> ascii ''key'']
          [Upload (Some [0x25, 0x50, 0x44, 0x46]), Click] (init_widgets, init_world)))) \<in>
     {blocked_page, ready_page}"
  by (rule button_not_sticky) simp

lemma summary_reachable_witness:
  "\<exists>as. (Main, Markdown (concat (map (\<lambda>h. ascii ''### '' @ h @ [0xA]) section_headings))) \<in>
       set (elements (snd (browser_session hello_services [secret_name \<mapsto> ascii ''key''] as
         (init_widgets, init_world)))) \<and>
     calls (snd (browser_session hello_services [secret_name \<mapsto> ascii ''key''] as
         (init_widgets, init_world))) =
       [PdfRead [0x25, 0x50, 0x44, 0x46],
        ModelRequest (summary_request (ascii ''key'') (ascii ''gemini-2.5-flash'') (ascii ''Hello World''))]"
  using summary_reachable [where secrets = "[secret_name \<mapsto> ascii ''key'']" and k = "ascii ''key''"
      and svc = hello_services and f = "[0x25, 0x50, 0x44, 0x46]" and t = "ascii ''Hello World''"
      and m = "ascii ''gemini-2.5-flash''"
      and s = "concat (map (\<lambda>h. ascii ''### '' @ h @ [0xA]) section_headings)"
      and b = "(init_widgets, init_world)"]
  by (simp add: pdf_text_def hello_services_def summary_request_def model_options_def
       section_headings_def flip: ascii_append)

end
