(* ===== verification/Concurrency.thy ===== *)
theory Concurrency
  imports Shell
begin

text \<open>
  Concurrent sessions. Streamlit serves every browser session from one process, running
  each session's script in its own thread, and \<^verbatim>\<open>genai.configure\<close> writes one
  process-wide key. \<^verbatim>\<open>summarize_text\<close> is two atomic steps on that shared state,
  configure and then generate; steps of different sessions interleave. The theory
  models a session's steps (\<open>summarize_steps\<close>), their execution (\<open>exec_steps\<close>),
  shows that in isolation they are \<open>summarize_text\<close>, that an interleaving of two
  sessions with different keys can send one session's paper under the other's key,
  and that no interleaving of the runs of any number of sessions of one deployment can:
  the steps a run performs (\<open>run_steps\<close>) configure the key the script reads from
  the secret store, and they are exactly what \<open>app_run\<close> does to the shared state.
\<close>

section \<open>Atomic steps\<close>

datatype step = Configure pystr | Generate pystr pystr

primrec exec_step :: "'p services \<Rightarrow> step \<Rightarrow> world \<Rightarrow> world" where
  "exec_step svc (Configure k) w = genai_configure k w"
| "exec_step svc (Generate m p) w = snd (genai_generate svc m p w)"

fun exec_steps :: "'p services \<Rightarrow> step list \<Rightarrow> world \<Rightarrow> world" where
  "exec_steps svc [] w = w"
| "exec_steps svc (s # ss) w = exec_steps svc ss (exec_step svc s w)"

text \<open>The steps of one call of \<^verbatim>\<open>summarize_text\<close> (lines 22 and 68).\<close>

definition summarize_steps :: "pystr \<Rightarrow> pystr \<Rightarrow> pystr \<Rightarrow> step list" where
  "summarize_steps api_key model_name text = [Configure api_key, Generate model_name (prompt text)]"

definition uses_key :: "pystr \<Rightarrow> step \<Rightarrow> bool" where
  "uses_key k s = (case s of Configure k' \<Rightarrow> k' = k | Generate m p \<Rightarrow> True)"

text \<open>
  The genai steps of one script run (lines 81 and 96--104): \<open>summarize_text\<close> is
  called, with the key read from the secret store, only on a click with a key, a file and
  a non-empty extracted text.
\<close>

definition run_steps :: "'p services \<Rightarrow> (pystr \<rightharpoonup> pystr) \<Rightarrow> run_input \<Rightarrow> step list" where
  "run_steps svc secrets i =
     (case (secrets secret_name, upload i) of
        (Some api_key, Some f) \<Rightarrow>
          (case pdf_text svc f of
             Inr paper_text \<Rightarrow>
               if api_key \<noteq> [] \<and> clicked i \<and> paper_text \<noteq> []
               then summarize_steps api_key (selected_model i) paper_text else []
           | Inl e \<Rightarrow> [])
      | _ \<Rightarrow> [])"

text \<open>The interleavings of the step lists of several sessions.\<close>

fun interleavings :: "'a list list \<Rightarrow> 'a list set" where
  "interleavings [] = {[]}"
| "interleavings (xs # xss) = (\<Union>ys \<in> interleavings xss. shuffles xs ys)"

section \<open>Properties\<close>

lemma exec_steps_append:
  "exec_steps svc (ss @ ts) w = exec_steps svc ts (exec_steps svc ss w)"
  by (induction ss arbitrary: w) simp_all

lemma exec_step_requests:
  "\<exists>rs. requests (exec_step svc s w) = requests w @ rs \<and>
        (\<forall>r \<in> set rs. Some (req_key r) = genai_key w)"
  by (cases s) (auto simp: genai_generate_def Let_def split: option.split)

text \<open>
  In isolation the two steps are \<^verbatim>\<open>summarize_text\<close>: the same requests and the same
  configured key.
\<close>

lemma summarize_steps_sequential:
  "requests (exec_steps svc (summarize_steps k m t) w) = requests (snd (summarize_text svc k m t w)) \<and>
   genai_key (exec_steps svc (summarize_steps k m t) w) = genai_key (snd (summarize_text svc k m t w))"
  by (simp add: summarize_steps_def summarize_text_eq world_simps summary_request_def
      Let_def split: sum.split)

text \<open>
  C10. The race: for any two sessions with keys \<open>ka\<close> and \<open>kb\<close>, there is an
  interleaving of their steps in which session A's paper is sent under session B's key.
\<close>

theorem key_race:
  "\<exists>tr \<in> shuffles (summarize_steps ka ma ta) (summarize_steps kb mb tb).
     requests (exec_steps svc tr w) =
       requests w @ [\<lparr>req_key = kb, req_model = ma, req_prompt = prompt ta\<rparr>,
                     \<lparr>req_key = kb, req_model = mb, req_prompt = prompt tb\<rparr>]"
proof
  let ?tr = "[Configure ka, Configure kb, Generate ma (prompt ta), Generate mb (prompt tb)]"
  show "?tr \<in> shuffles (summarize_steps ka ma ta) (summarize_steps kb mb tb)"
    by (simp add: summarize_steps_def)
  show "requests (exec_steps svc ?tr w) =
      requests w @ [\<lparr>req_key = kb, req_model = ma, req_prompt = prompt ta\<rparr>,
                    \<lparr>req_key = kb, req_model = mb, req_prompt = prompt tb\<rparr>]"
    by (simp add: world_simps)
qed

lemma exec_steps_one_key:
  assumes "list_all (uses_key k) tr" and "genai_key w \<in> {None, Some k}"
  shows "\<exists>rs. requests (exec_steps svc tr w) = requests w @ rs \<and> (\<forall>r \<in> set rs. req_key r = k)"
  using assms
proof (induction tr arbitrary: w)
  case Nil
  then show ?case by simp
next
  case (Cons s tr)
  obtain rs1 where rs1: "requests (exec_step svc s w) = requests w @ rs1"
    "\<forall>r \<in> set rs1. Some (req_key r) = genai_key w"
    using exec_step_requests by blast
  have key: "genai_key (exec_step svc s w) \<in> {None, Some k}"
    using Cons.prems
    by (cases s) (auto simp: uses_key_def genai_generate_def Let_def split: option.split)
  obtain rs2 where rs2: "requests (exec_steps svc tr (exec_step svc s w)) =
      requests (exec_step svc s w) @ rs2" "\<forall>r \<in> set rs2. req_key r = k"
    using Cons.IH [OF _ key] Cons.prems by auto
  have "\<forall>r \<in> set rs1. req_key r = k"
    using rs1(2) Cons.prems(2) by auto
  with rs1(1) rs2 show ?case by auto
qed

lemma set_interleavings: "tr \<in> interleavings xss \<Longrightarrow> set tr = (\<Union>xs \<in> set xss. set xs)"
  by (induction xss arbitrary: tr) (auto dest: set_shuffles)

lemma run_steps_key: "secrets secret_name = Some k \<Longrightarrow> list_all (uses_key k) (run_steps svc secrets i)"
  by (auto simp: run_steps_def summarize_steps_def uses_key_def split: option.split sum.split)

lemma exec_summarize_steps:
  "requests (exec_steps svc (summarize_steps k m t) w) = requests w @ [summary_request k m t] \<and>
   genai_key (exec_steps svc (summarize_steps k m t) w) = Some k"
  by (simp add: summarize_steps_def world_simps summary_request_def)

text \<open>A run alone does to the shared genai state exactly what its steps do.\<close>

lemma run_steps_app_run:
  "requests (exec_steps svc (run_steps svc secrets i) w) = requests (app_run svc secrets i w) \<and>
   genai_key (exec_steps svc (run_steps svc secrets i) w) = genai_key (app_run svc secrets i w)"
proof (cases secrets rule: secret_cases)
  case no_key
  then show ?thesis
    by (cases "secrets secret_name") (simp_all add: app_run_blocked run_steps_def split: option.split sum.split)
next
  case (key k)
  then show ?thesis
    by (auto simp: app_run_ready run_steps_def run_pipeline_requests run_pipeline_genai_key
        exec_summarize_steps split: option.split sum.split)
qed

text \<open>
  C11. One deployment, any number of concurrent sessions: each run's genai steps are
  exactly what \<^verbatim>\<open>app_run\<close> does to the shared state when it runs alone, and, since
  every run configures the key the script reads from the secret store, in every
  interleaving of the steps of the runs of any number of sessions every request sent
  carries that key.
\<close>

theorem single_key_safe:
  assumes "secrets secret_name = Some k"
    and "tr \<in> interleavings (map (run_steps svc secrets) ins)"
    and "genai_key w \<in> {None, Some k}"
  shows "(\<forall>i. requests (exec_steps svc (run_steps svc secrets i) w) = requests (app_run svc secrets i w)) \<and>
         (\<exists>rs. requests (exec_steps svc tr w) = requests w @ rs \<and> (\<forall>r \<in> set rs. req_key r = k))"
proof
  show "\<forall>i. requests (exec_steps svc (run_steps svc secrets i) w) = requests (app_run svc secrets i w)"
    using run_steps_app_run by blast
  have "list_all (uses_key k) tr"
    using set_interleavings [OF assms(2)] run_steps_key [where secrets = secrets and svc = svc, OF assms(1)]
    by (auto simp: list_all_iff)
  then show "\<exists>rs. requests (exec_steps svc tr w) = requests w @ rs \<and> (\<forall>r \<in> set rs. req_key r = k)"
    using assms(3) by (rule exec_steps_one_key)
qed

lemma single_key_safe_witness:
  "(\<forall>i. requests (exec_steps hello_services (run_steps hello_services [secret_name \<mapsto> ascii ''key''] i)
           init_world) =
         requests (app_run hello_services [secret_name \<mapsto> ascii ''key''] i init_world)) \<and>
   (\<exists>rs. requests (exec_steps hello_services
        [Configure (ascii ''key''), Configure (ascii ''key''),
         Generate (ascii ''gemini-2.5-flash'') (prompt (ascii ''Hello World'')),
         Generate (ascii ''gemini-2.5-flash'') (prompt (ascii ''Hello World''))] init_world) =
      requests init_world @ rs \<and> (\<forall>r \<in> set rs. req_key r = ascii ''key''))"
proof -
  have steps: "run_steps hello_services [secret_name \<mapsto> ascii ''key''] hello_input =
      summarize_steps (ascii ''key'') (ascii ''gemini-2.5-flash'') (ascii ''Hello World'')"
    by (simp add: run_steps_def hello_input_def hello_services_def pdf_text_def selected_model_def
        st_selectbox_def model_options_def flip: ascii_append)
  show ?thesis
    by (rule single_key_safe [where ins = "[hello_input, hello_input]"])
       (simp_all add: steps summarize_steps_def)
qed

text \<open>
  C12. Only the key is shared: in every interleaving of two sessions' steps both requests
  are sent, and each pairs its session's model with its session's paper. (The model name
  belongs to each \<^verbatim>\<open>GenerativeModel\<close> object, not to the process-wide configuration.)
\<close>

theorem interleaving_models_intact:
  assumes "tr \<in> shuffles (summarize_steps ka ma ta) (summarize_steps kb mb tb)"
  shows "\<exists>rs. requests (exec_steps svc tr w) = requests w @ rs \<and>
           map (\<lambda>r. (req_model r, req_prompt r)) rs \<in>
             {[(ma, prompt ta), (mb, prompt tb)], [(mb, prompt tb), (ma, prompt ta)]}"
  using assms
  by (auto simp: summarize_steps_def world_simps)

lemma interleaving_models_intact_witness:
  "\<exists>rs. requests (exec_steps \<lparr>pdf_reader = \<lambda>_. Inr [], page_text = \<lambda>_. Inr [],
           generate = \<lambda>_. Inr []\<rparr>
        [Configure (ascii ''ka''), Configure (ascii ''kb''),
         Generate (ascii ''gemini-2.5-pro'') (prompt (ascii ''A'')),
         Generate (ascii ''gemini-2.0-flash'') (prompt (ascii ''B''))] init_world) =
        requests init_world @ rs \<and>
      map (\<lambda>r. (req_model r, req_prompt r)) rs \<in>
        {[(ascii ''gemini-2.5-pro'', prompt (ascii ''A'')), (ascii ''gemini-2.0-flash'', prompt (ascii ''B''))],
         [(ascii ''gemini-2.0-flash'', prompt (ascii ''B'')), (ascii ''gemini-2.5-pro'', prompt (ascii ''A''))]}"
  by (rule interleaving_models_intact [where ka = "ascii ''ka''" and kb = "ascii ''kb''"])
     (simp add: summarize_steps_def)

end
