(* ===== verification/Spec2Isabelle.thy ===== *)
theory Spec2Isabelle
  imports Browser Concurrency
begin

text \<open>
  \<^bold>\<open>A verification development of the paper summarizer \<^verbatim>\<open>src/app.py\<close>.\<close>

  \<^bold>\<open>The program.\<close> One Streamlit script of 113 lines. Streamlit runs it from the
  top on every user interaction, each browser session in its own thread of one process.
  A run draws a title and a sidebar, reads the key \<^verbatim>\<open>GEMINI_API_KEY\<close> from the
  secret store and stops with an administrator message when it is missing; otherwise it
  draws a model choice (three fixed names), a PDF uploader and a button. On a click with
  a file it calls the extractor \<^verbatim>\<open>extract_text_from_pdf\<close> (lines 7--17: the texts
  of all pages concatenated), and, for a non-empty text, the summarizer
  \<^verbatim>\<open>summarize_text\<close> (lines 19--72: configure the process-wide genai client with the
  key, wrap the text in a fixed Japanese prompt, send one request); a non-empty answer
  is shown under a heading. Both functions turn any exception into one
  \<^verbatim>\<open>st.error\<close> message and \<^verbatim>\<open>None\<close>. The components interact only by these
  calls, through the shared process state of the libraries.

  \<^bold>\<open>The theories, in import order.\<close>
  \<^item> \<open>Prelude\<close>: Python's \<open>str\<close> as a list of Unicode code points (\<open>pystr\<close>;
    \<open>ascii\<close> lifts ASCII literals, other characters are written as code points, and
    every literal was checked to decode to the source's string), the truthiness the
    script's \<^verbatim>\<open>if\<close>s use (\<open>py_truthy\<close>), exceptions by their \<^verbatim>\<open>str(e)\<close>
    (\<open>exc\<close>), \<open>sum_bind\<close> for \<^verbatim>\<open>try\<close> blocks, shared list lemmas.
  \<^item> \<open>Runtime\<close>: the libraries as an interface. The process state \<open>world\<close> holds
    the current page (\<open>elements\<close>), genai's configured key (\<open>genai_key\<close>) and the
    ordered log of external calls (\<open>calls\<close>: \<open>PdfRead\<close> when pypdf is opened on
    the uploaded bytes, \<open>ModelRequest\<close> when a request is sent); \<open>requests\<close> is
    the view of the log that keeps the requests. \<open>services\<close> holds pypdf and the
    model service as arbitrary functions, so every theorem holds for every PDF and every
    answer. Operations: \<open>st_emit\<close>, the widgets, \<open>pdf_open\<close>,
    \<open>genai_configure\<close> (last writer wins), \<open>genai_generate\<close> (one logged request
    with the key configured now); the collection \<open>world_simps\<close> says how each changes
    the world.
  \<^item> \<open>Prompt\<close>: the f-string of lines 25--66, line by line (\<open>prompt_lines\<close>,
    \<open>prompt\<close>), its seven section headings (\<open>section_headings\<close>), and the decoder
    \<open>prompt_text\<close>, which recovers the paper text from a prompt.
  \<^item> \<open>Extractor\<close>: \<open>extract_pages\<close> (the loop of lines 11--14) and
    \<open>extract_text_from_pdf\<close>; the reference specification \<open>pdf_text\<close> (collect
    the page texts, fail with the first exception, concatenate).
  \<^item> \<open>Summarizer\<close>: \<open>summarize_text\<close> and the request it sends
    (\<open>summary_request\<close>).
  \<^item> \<open>Shell\<close>: the literals of the script, \<open>run_pipeline\<close> (lines 97--108),
    \<open>app_run\<close> (one run, lines 74--113), \<open>app_reachable\<close> (the states
    sessions reach, an inductive predicate), the area
    each element belongs in (\<open>elem_area\<close>, \<open>page_layout_ok\<close>), the bracketing
    of spinners (\<open>spinner_state\<close>) and the end-to-end scenario of the spec
    (\<open>hello_services\<close>, \<open>hello_input\<close>).
  \<^item> \<open>Browser\<close>: Streamlit's rerun model as the script sees it: widget values kept
    across reruns (\<open>widget_state\<close>), one rerun per user action (\<open>action\<close>,
    \<open>browser_step\<close>, \<open>browser_session\<close>), a button true only in the run of
    its click (\<open>run_of\<close>).
  \<^item> \<open>Concurrency\<close>: \<open>summarize_text\<close> as its two atomic steps on the shared
    state (\<open>summarize_steps\<close>), the steps one script run performs
    (\<open>run_steps\<close>, proved to be what \<open>app_run\<close> does to the shared state), run in
    any interleaving (\<open>exec_steps\<close>; interleavings of two sessions as
    \<open>shuffles\<close>, of any number as \<open>interleavings\<close>).
  \<^item> this theory: the properties that need all components.

  \<^bold>\<open>What is proved.\<close> Extractor: the function calls pypdf once and implements the
  reference on every branch; page texts are joined with no separator; a failing page drops
  the text read so far and yields one message. Prompt: the seven headings occur whatever
  the text; building and decoding the prompt are inverse (a string decodes to \<open>t\<close>
  exactly when it is the prompt around \<open>t\<close>), so the text is embedded verbatim and
  never cut. Summarizer: exactly one external call per
  call, a request with the caller's key, the model and the prompt; success returns the
  answer unchanged; failure gives one message. Shell: without a key no external call is
  ever made, no key configured, and the page is the administrator message (rule induction
  over reachable states); with key \<open>k\<close> every request ever sent carries \<open>k\<close>, an
  offered model and a prompt around a non-empty text (an invariant kept by every run);
  the calls of a run are none, the read of the uploaded file, or that read followed by one
  request for the text read (no retries, never a request before the read); extraction
  failures never reach the summarizer; an empty text or an empty answer ends the run
  silently; a missing file gives the upload warning; the missing-key warning is dead
  code; every element is drawn in its area (settings in the sidebar); spinners close on
  every path, without nesting; runs do not depend on earlier runs; the spec's
  end-to-end scenario
  (pages \<open>Hello \<close> and \<open>World\<close>, model \<^verbatim>\<open>gemini-2.5-flash\<close>, an answer
  with the seven headings shown verbatim) is a closed instance. Browser: only a click does
  work, any other action redraws the
  idle page (the summary disappears and is not recomputed); from every state the user can
  obtain the summary of a readable document (progress). Concurrency: two sessions with
  different keys can have one's paper sent under the other's key; in one deployment, whose
  runs all configure the key read from the secret store, no interleaving of the runs of
  any number of sessions can; models and papers are never
  mixed between sessions. Across components: the request of a run holds exactly the
  concatenated page texts of the uploaded file.

  \<^bold>\<open>Bounds, fuel and termination.\<close> None are needed: the only loop of the script
  runs over the finite page list and is structural recursion (\<open>extract_pages\<close>), as
  are the sessions (\<open>browser_session\<close>, \<open>exec_steps\<close>, \<open>interleavings\<close>), so
  every function of the model is total and every run returns; no definition uses a
  \<open>partial_function\<close> or fuel.

  \<^bold>\<open>Not modelled.\<close> The libraries' code (Streamlit, pypdf, genai): only the state
  and the answers the script observes. Spinners are a start and an end element, not
  timing. The page reads of pypdf are not logged one by one (opening the document is);
  the uploader's restriction to \<^verbatim>\<open>.pdf\<close>, non-string values in the secret store and
  a missing secrets file are the libraries' and are not modelled.

  \<^bold>\<open>Plan for the next sittings.\<close> Model \<^verbatim>\<open>st.secrets\<close> as a parsed TOML table
  (non-string values, missing file); model the uploader's type filter from its
  documentation; log the page reads of pypdf and prove that the loop stops at the first
  failing page; interleave browser sessions of several users over one process.
\<close>

section \<open>Properties across the components\<close>

text \<open>
  C5. The request of a run holds the uploaded document's text verbatim: when the pages
  of the uploaded file yield texts whose concatenation is non-empty, the run sends
  exactly one request, with the deployment's key and an offered model, and the paper
  text recovered from its prompt is exactly that concatenation (Extractor, Prompt,
  Summarizer and Shell together).
\<close>

theorem payload_holds_document_text:
  assumes "secrets secret_name = Some k" and "k \<noteq> []" and "clicked i" and "upload i = Some f"
    and "pdf_reader svc f = Inr pages" and "map (page_text svc) pages = map Inr ts"
    and "concat ts \<noteq> []"
  shows "\<exists>r. requests (app_run svc secrets i w) = requests w @ [r] \<and> req_key r = k \<and>
             req_model r \<in> set model_options \<and> prompt_text (req_prompt r) = Some (concat ts)"
proof -
  from assms(5,6) have doc: "pdf_text svc f = Inr (concat ts)"
    by (simp add: pdf_text_def collect_Inr_iff)
  let ?r = "summary_request k (selected_model i) (concat ts)"
  have "requests (app_run svc secrets i w) = requests w @ [?r]"
    using assms(1-4,7) doc by (simp add: app_run_ready run_pipeline_requests)
  moreover have "req_key ?r = k \<and> req_model ?r \<in> set model_options \<and>
      prompt_text (req_prompt ?r) = Some (concat ts)"
    using selected_model_option by (simp add: summary_request_def prompt_roundtrip)
  ultimately show ?thesis by blast
qed

lemma payload_holds_document_text_witness:
  "\<exists>r. requests (app_run hello_services [secret_name \<mapsto> ascii ''key''] hello_input init_world) =
        requests init_world @ [r] \<and> req_key r = ascii ''key'' \<and> req_model r \<in> set model_options \<and>
        prompt_text (req_prompt r) = Some (concat [ascii ''Hello '', ascii ''World''])"
  by (rule payload_holds_document_text [where f = "[0x25, 0x50, 0x44, 0x46]"
        and pages = "[ascii ''Hello '', ascii ''World'']"])
     (simp_all add: hello_input_def hello_services_def)

end
